theory Spec2Isabelle
  imports Complex_Main
begin

section \<open>Numbers, compile-time constants and the buffer pool\<close>

subsection \<open>Integers\<close>

text \<open>
  \<^verbatim>\<open>size_t\<close> is 64 bits wide. A value of it is a natural number below \<open>2 ^ 64\<close>, and every
  product, sum and increment that the source computes in \<^verbatim>\<open>size_t\<close> is written with its
  \<open>mod 2 ^ 64\<close>; a subtraction that the source guards by a comparison, and a division, are
  exact. \<^verbatim>\<open>int\<close> is 32 bits wide and \<^verbatim>\<open>int64_t\<close> 64; they are integers, and where the
  source multiplies a configured \<^verbatim>\<open>int\<close> the product is reduced to 32 bits in two's
  complement.
\<close>

type_synonym size_t = nat
type_synonym int64_t = int


subsection \<open>Doubles\<close>

text \<open>
  A \<^verbatim>\<open>double\<close> is an IEEE 754 binary64 number: a sign, 53 significant bits and an
  exponent between \<open>-1022\<close> and \<open>1023\<close>. The finite doubles are rational numbers, and a
  \<^verbatim>\<open>double\<close> of the model is the rational number it stands for. Every operation of the
  source on doubles (a sum, a difference, a product, a quotient, the conversion of an
  integer, a decimal constant) is the exact result rounded to the nearest double, a tie
  going to the double whose last bit is even; each operation rounds once. Comparisons of
  doubles are comparisons of their values.

  The doubles of connection.c stay finite: a queue average starts at \<open>0.0\<close>, and every
  value is a product, quotient or weighted mean of \<^verbatim>\<open>size_t\<close> values, of constants of at
  most 3 and of earlier such values, all far below \<open>2 ^ 1024\<close>. Infinities and NaN are
  therefore not represented.
\<close>

type_synonym double = rat

text \<open>The number of bits of a natural number: \<open>bit_length n\<close> is the least \<open>b\<close> with \<open>n < 2 ^ b\<close>.\<close>

fun bit_length :: "nat \<Rightarrow> nat" where
  "bit_length n = (if n = 0 then 0 else Suc (bit_length (n div 2)))"

text \<open>
  \<open>pow2 e\<close> is \<open>2\<close> to the power \<open>e\<close>, and \<open>ilog2 x\<close> the exponent of a rational \<open>x \<noteq> 0\<close>:
  the integer \<open>e\<close> with \<open>pow2 e \<le> \<bar>x\<bar> < pow2 (e + 1)\<close>.
\<close>

definition pow2 :: "int \<Rightarrow> rat" where
  "pow2 e = (if 0 \<le> e then 2 ^ nat e else 1 / 2 ^ nat (- e))"

definition ilog2 :: "rat \<Rightarrow> int" where
  "ilog2 x =
     (if 1 \<le> \<bar>x\<bar> then int (bit_length (nat \<lfloor>\<bar>x\<bar>\<rfloor>)) - 1
      else - int (bit_length (nat (\<lceil>1 / \<bar>x\<bar>\<rceil> - 1))))"

text \<open>The integer nearest to \<open>q\<close>, the even one of the two when \<open>q\<close> lies half-way.\<close>

definition round_half_even :: "rat \<Rightarrow> int" where
  "round_half_even q =
     (if q - of_int \<lfloor>q\<rfloor> < 1 / 2 then \<lfloor>q\<rfloor>
      else if 1 / 2 < q - of_int \<lfloor>q\<rfloor> then \<lfloor>q\<rfloor> + 1
      else if even \<lfloor>q\<rfloor> then \<lfloor>q\<rfloor> else \<lfloor>q\<rfloor> + 1)"

text \<open>
  Rounding to binary64. The doubles between \<open>pow2 e\<close> and \<open>pow2 (e + 1)\<close> are the multiples
  of \<open>pow2 (e - 52)\<close>; below \<open>pow2 (- 1022)\<close> (the subnormal numbers) they are the
  multiples of \<open>pow2 (- 1074)\<close>.
\<close>

definition round_double :: "rat \<Rightarrow> double" where
  "round_double x =
     (if x = 0 then 0
      else of_int (round_half_even (x / pow2 (max (ilog2 x) (- 1022) - 52)))
             * pow2 (max (ilog2 x) (- 1022) - 52))"

definition double_of_size_t :: "size_t \<Rightarrow> double" where
  "double_of_size_t n = round_double (of_nat n)"

definition double_of_int :: "int \<Rightarrow> double" where
  "double_of_int i = round_double (of_int i)"

definition double_add :: "double \<Rightarrow> double \<Rightarrow> double" where
  "double_add a b = round_double (a + b)"

definition double_sub :: "double \<Rightarrow> double \<Rightarrow> double" where
  "double_sub a b = round_double (a - b)"

definition double_mul :: "double \<Rightarrow> double \<Rightarrow> double" where
  "double_mul a b = round_double (a * b)"

definition double_div :: "double \<Rightarrow> double \<Rightarrow> double" where
  "double_div a b = round_double (a / b)"

subsection \<open>Parameters\<close>

text \<open>
  What the functions below take from headers that are not among the sources, and from
  the platform:

  \<^item> the two macros of zerocopy.h;

  \<^item> the widths in bits of the unsigned types of the three drop counters of
    \<^verbatim>\<open>connection_t\<close>, which connection.h declares;

  \<^item> the result of converting to \<^verbatim>\<open>size_t\<close> a double whose integer part is not a
    \<^verbatim>\<open>size_t\<close>, which the C standard leaves undefined.
\<close>

record macros =
  BUFFER_POOL_BUFFER_SIZE :: size_t
  BUFFER_POOL_INITIAL_SIZE :: size_t
  dropped_packets_bits :: nat
  dropped_bytes_bits :: nat
  backpressure_events_bits :: nat
  size_t_of_double_undefined :: "double \<Rightarrow> size_t"

text \<open>
  \<^verbatim>\<open>(size_t)x\<close> for a double \<open>x\<close>: the fraction is dropped. This is defined when the
  integer part is a \<^verbatim>\<open>size_t\<close>, that is for \<open>-1 < x < 2 ^ 64\<close>.
\<close>

definition size_t_of_double :: "macros \<Rightarrow> double \<Rightarrow> size_t" where
  "size_t_of_double k x =
     (if - 1 < x \<and> x < 2 ^ 64 then nat \<lfloor>x\<rfloor> else size_t_of_double_undefined k x mod 2 ^ 64)"

text \<open>The macros at the head of connection.c; a decimal constant is the double nearest to it.\<close>

definition CONN_QUEUE_MIN_BUFFERS :: size_t where
  "CONN_QUEUE_MIN_BUFFERS = 64"

definition CONN_QUEUE_BURST_FACTOR :: double where
  "CONN_QUEUE_BURST_FACTOR = round_double 3"

definition CONN_QUEUE_BURST_FACTOR_CONGESTED :: double where
  "CONN_QUEUE_BURST_FACTOR_CONGESTED = round_double (15 / 10)"

definition CONN_QUEUE_BURST_FACTOR_DRAIN :: double where
  "CONN_QUEUE_BURST_FACTOR_DRAIN = round_double 1"

definition CONN_QUEUE_EWMA_ALPHA :: double where
  "CONN_QUEUE_EWMA_ALPHA = round_double (2 / 10)"

definition CONN_QUEUE_SLOW_FACTOR :: double where
  "CONN_QUEUE_SLOW_FACTOR = round_double (15 / 10)"

definition CONN_QUEUE_SLOW_EXIT_FACTOR :: double where
  "CONN_QUEUE_SLOW_EXIT_FACTOR = round_double (11 / 10)"

definition CONN_QUEUE_SLOW_DEBOUNCE_MS :: int64_t where
  "CONN_QUEUE_SLOW_DEBOUNCE_MS = 3000"

definition CONN_QUEUE_HIGH_UTIL_THRESHOLD :: double where
  "CONN_QUEUE_HIGH_UTIL_THRESHOLD = round_double (85 / 100)"

definition CONN_QUEUE_DRAIN_UTIL_THRESHOLD :: double where
  "CONN_QUEUE_DRAIN_UTIL_THRESHOLD = round_double (95 / 100)"

definition CONN_QUEUE_SLOW_LIMIT_RATIO :: double where
  "CONN_QUEUE_SLOW_LIMIT_RATIO = round_double (9 / 10)"

definition CONN_QUEUE_SLOW_EXIT_LIMIT_RATIO :: double where
  "CONN_QUEUE_SLOW_EXIT_LIMIT_RATIO = round_double (75 / 100)"

definition CONN_QUEUE_SLOW_CLAMP_FACTOR :: double where
  "CONN_QUEUE_SLOW_CLAMP_FACTOR = round_double (8 / 10)"

text \<open>
  The fields of \<^verbatim>\<open>buffer_pool_t\<close> that connection.c reads, and the process-wide
  \<^verbatim>\<open>zerocopy_state\<close>: its pool and the number of registered stream clients, which
  \<^verbatim>\<open>zerocopy_active_streams()\<close> returns.
\<close>

record buffer_pool =
  num_buffers :: size_t
  num_free :: size_t
  max_buffers :: size_t
  low_watermark :: size_t

record zerocopy_state =
  pool :: buffer_pool
  zerocopy_active_streams :: size_t

subsection \<open>connection\_compute\_limit\_bytes\<close>

definition connection_compute_limit_bytes ::
  "macros \<Rightarrow> buffer_pool \<Rightarrow> size_t \<Rightarrow> double \<Rightarrow> size_t" where
  "connection_compute_limit_bytes k pl fair_bytes burst_factor =
     (let limit_bytes =
            size_t_of_double k (double_mul (double_of_size_t fair_bytes) burst_factor);
          limit_bytes =
            (if max_buffers pl > 0 then
               (let global_cap = (max_buffers pl * BUFFER_POOL_BUFFER_SIZE k) mod 2 ^ 64;
                    reserve = (CONN_QUEUE_MIN_BUFFERS * BUFFER_POOL_BUFFER_SIZE k) mod 2 ^ 64
                in if global_cap > reserve then
                     (let hard_cap = global_cap - reserve
                      in if limit_bytes > hard_cap then hard_cap else limit_bytes)
                   else
                     (if limit_bytes > global_cap then global_cap else limit_bytes))
             else limit_bytes)
      in if limit_bytes < (BUFFER_POOL_BUFFER_SIZE k * 4) mod 2 ^ 64
         then (BUFFER_POOL_BUFFER_SIZE k * 4) mod 2 ^ 64 else limit_bytes)"

text \<open>
  The limit as the specification words it, in exact arithmetic: the fair share times the
  burst factor (its whole bytes), capped by \<open>max_buffers \<times> BUFFER_SIZE \<midarrow> reserve\<close> when
  \<open>max_buffers > 0\<close> and that cap is positive, and raised to the floor of four buffers.
  The difference is taken in the integers, so that "positive" means what it says.
\<close>

definition spec_limit_bytes :: "macros \<Rightarrow> buffer_pool \<Rightarrow> size_t \<Rightarrow> rat \<Rightarrow> size_t" where
  "spec_limit_bytes k pl fair_bytes burst_factor =
     (let scaled = nat \<lfloor>of_nat fair_bytes * burst_factor\<rfloor>;
          cap = int (max_buffers pl * BUFFER_POOL_BUFFER_SIZE k)
                  - int (CONN_QUEUE_MIN_BUFFERS * BUFFER_POOL_BUFFER_SIZE k);
          capped = (if max_buffers pl > 0 \<and> cap > 0 then min scaled (nat cap) else scaled)
      in max (4 * BUFFER_POOL_BUFFER_SIZE k) capped)"

section \<open>Data model\<close>

text \<open>
  Calls of \<^verbatim>\<open>logger\<close> only write to the log and are left out throughout. Pointers that
  the source tests against \<^verbatim>\<open>NULL\<close> before use are options where they can be absent
  and plain values where the caller always passes an object.
\<close>

subsection \<open>Buffers and the send queue\<close>

text \<open>
  A \<^verbatim>\<open>buffer_ref_t\<close>: the payload bytes and \<^verbatim>\<open>data_size\<close>, the number of them that are
  valid. Reference counts and the free-list link belong to zerocopy.c and are not
  modelled. The send queue of a connection is the list of queued buffers, oldest first,
  with its counter \<^verbatim>\<open>num_queued\<close>.
\<close>

record buffer_ref =
  data :: string
  data_size :: size_t

record zerocopy_queue =
  items :: "buffer_ref list"
  num_queued :: size_t


definition queue_total_bytes :: "zerocopy_queue \<Rightarrow> size_t" where
  "queue_total_bytes q = sum_list (map data_size (items q))"

text \<open>
  Modelled from the spec: \<^verbatim>\<open>zerocopy_queue_add\<close> of zerocopy.c, which is not among the
  sources. The specification gives \<^verbatim>\<open>queue_buf(buf_ref)\<close> as "append; take a reference"
  and names no failure; the caller still tests for a negative result, so the result is
  an option.
\<close>

definition zerocopy_queue_add :: "zerocopy_queue \<Rightarrow> buffer_ref \<Rightarrow> zerocopy_queue option" where
  "zerocopy_queue_add q b = Some (q\<lparr>items := items q @ [b], num_queued := num_queued q + 1\<rparr>)"

subsection \<open>Services, requests and configuration\<close>

datatype service_type_t = SERVICE_MRTP | SERVICE_RTSP

record service =
  url :: string
  service_type :: service_type_t
  fcc_addr :: "string option"
  rtsp_url :: "string option"
  playseek_param :: "string option"
  user_agent :: "string option"

record http_request =
  req_url :: string
  req_method :: string
  req_hostname :: string
  req_user_agent :: string
  req_accept :: string
  x_request_snapshot :: bool

record config =
  cfg_hostname :: "string option"
  r2h_token :: "string option"
  status_page_route :: "string option"
  udpxy :: bool
  maxclients :: int
  mcast_rejoin_interval :: int
  video_snapshot :: bool

record status_shared_t =
  total_clients :: int

subsection \<open>Calls to collaborators\<close>

text \<open>
  The modules that connection.c and stream.c call (http.c, status.c, service.c, the
  kernel) are not among the sources. A call to one of them is recorded, in order, in a
  trace; what the call returns is an input of the model.
\<close>

datatype epoll_flag = EPOLLIN | EPOLLOUT | EPOLLRDHUP | EPOLLHUP | EPOLLERR

datatype http_status = STATUS_200

datatype content_type = CONTENT_MP2T | CONTENT_HTML

datatype action =
    Send_http_headers http_status content_type "string option"
  | Http_send_400
  | Http_send_401
  | Http_send_404
  | Http_send_500
  | Http_send_503
  | Epoll_ctl_mod int int "epoll_flag list"
  | Epoll_ctl_add int int
  | Fdmap_set int
  | Status_update_client_queue int size_t size_t size_t size_t size_t nat nat nat bool
  | Status_update_client_bytes int nat nat
  | Status_register_client string
  | Handle_status_page
  | Handle_disconnect_client
  | Handle_set_log_level
  | Status_handle_sse_init
  | Service_free service
  | Join_mcast_group
  | Rejoin_mcast_group int
  | Recv_dummy int size_t
  | Recvfrom_dummy int size_t
  | Recv_into_buffer int size_t
  | Recvfrom_into_buffer int size_t
  | Recv_rtcp int
  | Buffer_ref_put

subsection \<open>The stream context\<close>

datatype fcc_state_t =
    FCC_STATE_INIT
  | FCC_STATE_REQUESTED
  | FCC_STATE_UNICAST_PENDING
  | FCC_STATE_UNICAST_ACTIVE
  | FCC_STATE_MCAST_REQUESTED
  | FCC_STATE_MCAST_ACTIVE

record sockaddr_in =
  sin_addr :: nat
  sin_port :: nat

record fcc_session =
  fcc_state :: fcc_state_t
  fcc_sock :: int
  fcc_server :: sockaddr_in
  media_port :: nat
  unicast_start_time :: int64_t
  fcc_status_index :: int

text \<open>
  rtsp.h is not among the sources; stream.c names one state, \<^verbatim>\<open>RTSP_STATE_PLAYING\<close>, and
  one transport, \<^verbatim>\<open>RTSP_TRANSPORT_UDP\<close>. The other states are those the specification
  lists.
\<close>

datatype rtsp_state_t =
    RTSP_STATE_INIT
  | RTSP_STATE_OPTIONS
  | RTSP_STATE_DESCRIBE
  | RTSP_STATE_SETUP
  | RTSP_STATE_PLAY
  | RTSP_STATE_PLAYING

datatype rtsp_transport_t = RTSP_TRANSPORT_TCP | RTSP_TRANSPORT_UDP

record rtsp_session =
  rtsp_state :: rtsp_state_t
  transport_mode :: rtsp_transport_t
  keepalive_interval_ms :: int
  session_id :: string
  last_keepalive_ms :: int64_t
  rtsp_socket :: int
  rtp_socket :: int
  rtcp_socket :: int
  rtsp_status_index :: int
  rtsp_epoll_fd :: int

record snapshot_context =
  enabled :: bool
  start_time :: int64_t
  fallback_to_streaming :: bool

record stream_context =
  ctx_service :: "service option"
  epoll_fd :: int
  ctx_status_index :: int
  mcast_sock :: int
  fcc :: fcc_session
  rtsp :: rtsp_session
  snapshot :: snapshot_context
  total_bytes_sent :: nat
  last_bytes_sent :: nat
  last_status_update :: int64_t
  last_mcast_data_time :: int64_t
  last_fcc_data_time :: int64_t
  last_mcast_rejoin_time :: int64_t
  reorder_enabled :: bool
  reorder_slots :: "buffer_ref option list"
  reorder_expected_seqn :: nat
  reorder_base_seqn :: nat
  reorder_first_packet :: bool
  reorder_waiting :: bool
  reorder_wait_start :: int64_t
  reorder_drops :: nat
  reorder_duplicates :: nat
  reorder_out_of_order :: nat
  reorder_recovered :: nat
  ctx_trace :: "action list"

subsection \<open>The connection\<close>

datatype conn_state_t =
    CONN_READ_REQ_LINE
  | CONN_READ_HEADERS
  | CONN_ROUTE
  | CONN_STREAMING
  | CONN_CLOSING

datatype buffer_class_t = CONNECTION_BUFFER_CONTROL | CONNECTION_BUFFER_MEDIA

record connection =
  fd :: int
  epfd :: int
  state :: conn_state_t
  http_req :: http_request
  conn_service :: "service option"
  service_owned :: bool
  streaming :: bool
  status_index :: int
  client_addr_len :: nat
  zc_queue :: zerocopy_queue
  buffer_class :: buffer_class_t
  queue_limit_bytes :: size_t
  queue_bytes_highwater :: size_t
  queue_buffers_highwater :: size_t
  dropped_packets :: nat
  dropped_bytes :: nat
  backpressure_events :: nat
  stream_registered :: bool
  queue_avg_bytes :: double
  slow_active :: bool
  slow_candidate_since :: int64_t
  stream :: stream_context
  trace :: "action list"

definition emit :: "action \<Rightarrow> connection \<Rightarrow> connection" where
  "emit a c = c\<lparr>trace := trace c @ [a]\<rparr>"

section \<open>The backpressure controller and the send path (connection.c)\<close>

text \<open>
  The functions of zerocopy.c that the send path calls, as inputs of the model: the two
  allocators, which return a buffer or nothing and may change the pool;
  \<^verbatim>\<open>buffer_ref_put\<close>, which may return a buffer to the pool; and the flush test.
\<close>

record pool_ext =
  buffer_pool_alloc :: "zerocopy_state \<Rightarrow> buffer_ref option \<times> zerocopy_state"
  buffer_pool_alloc_control :: "zerocopy_state \<Rightarrow> buffer_ref option \<times> zerocopy_state"
  buffer_ref_put :: "buffer_ref \<Rightarrow> zerocopy_state \<Rightarrow> zerocopy_state"
  zerocopy_should_flush :: "zerocopy_queue \<Rightarrow> bool"

definition connection_alloc_output_buffer ::
  "pool_ext \<Rightarrow> zerocopy_state \<Rightarrow> connection \<Rightarrow> buffer_ref option \<times> zerocopy_state" where
  "connection_alloc_output_buffer x zs c =
     (if buffer_class c = CONNECTION_BUFFER_CONTROL then
        (case buffer_pool_alloc_control x zs of
           (None, zs1) \<Rightarrow> buffer_pool_alloc x zs1
         | (Some buf_ref, zs1) \<Rightarrow> (Some buf_ref, zs1))
      else buffer_pool_alloc x zs)"

text \<open>
  \<^verbatim>\<open>connection_calculate_queue_limit\<close> updates the moving average and the slow-client
  fields of the connection and returns the limit: the model returns both.
\<close>

definition connection_calculate_queue_limit ::
  "macros \<Rightarrow> zerocopy_state \<Rightarrow> connection \<Rightarrow> int64_t \<Rightarrow> size_t \<times> connection" where
  "connection_calculate_queue_limit k zs c now_ms =
     (let pl = pool zs;
          active = zerocopy_active_streams zs;
          active = (if active = 0 then 1 else active);
          total_buffers =
            (if num_buffers pl \<noteq> 0 then num_buffers pl else BUFFER_POOL_INITIAL_SIZE k);
          share_buffers = total_buffers div active;
          share_buffers =
            (if share_buffers < CONN_QUEUE_MIN_BUFFERS then CONN_QUEUE_MIN_BUFFERS
             else share_buffers);
          utilization =
            (if max_buffers pl > 0 then
               (let used_buffers =
                      (if num_buffers pl > num_free pl then num_buffers pl - num_free pl else 0)
                in double_div (double_of_size_t used_buffers) (double_of_size_t (max_buffers pl)))
             else 0);
          burst_factor = CONN_QUEUE_BURST_FACTOR;
          burst_factor =
            (if num_buffers pl \<ge> max_buffers pl \<or> utilization \<ge> CONN_QUEUE_HIGH_UTIL_THRESHOLD
             then CONN_QUEUE_BURST_FACTOR_CONGESTED else burst_factor);
          burst_factor =
            (if num_free pl < low_watermark pl div 2
                \<or> utilization \<ge> CONN_QUEUE_DRAIN_UTIL_THRESHOLD
             then CONN_QUEUE_BURST_FACTOR_DRAIN else burst_factor);
          fair_bytes = (share_buffers * BUFFER_POOL_BUFFER_SIZE k) mod 2 ^ 64;
          queue_mem_bytes =
            double_mul (double_of_size_t (num_queued (zc_queue c)))
              (double_of_size_t (BUFFER_POOL_BUFFER_SIZE k));
          c = c\<lparr>queue_avg_bytes :=
                 (if queue_avg_bytes c \<le> 0 then queue_mem_bytes
                  else double_add
                         (double_mul (double_sub 1 CONN_QUEUE_EWMA_ALPHA) (queue_avg_bytes c))
                         (double_mul CONN_QUEUE_EWMA_ALPHA queue_mem_bytes))\<rparr>;
          bursted_bytes = connection_compute_limit_bytes k pl fair_bytes burst_factor;
          slow_threshold = double_mul (double_of_size_t fair_bytes) CONN_QUEUE_SLOW_FACTOR;
          limit_based_threshold =
            double_mul (double_of_size_t bursted_bytes) CONN_QUEUE_SLOW_LIMIT_RATIO;
          slow_threshold =
            (if slow_threshold > limit_based_threshold then limit_based_threshold
             else slow_threshold);
          slow_exit_threshold =
            double_mul (double_of_size_t fair_bytes) CONN_QUEUE_SLOW_EXIT_FACTOR;
          limit_exit_threshold =
            double_mul (double_of_size_t bursted_bytes) CONN_QUEUE_SLOW_EXIT_LIMIT_RATIO;
          slow_exit_threshold =
            (if slow_exit_threshold > limit_exit_threshold then limit_exit_threshold
             else slow_exit_threshold);
          slow_exit_threshold =
            (if slow_exit_threshold \<ge> slow_threshold
             then double_mul slow_threshold CONN_QUEUE_SLOW_EXIT_LIMIT_RATIO
             else slow_exit_threshold);
          c = (if queue_avg_bytes c > slow_threshold then
                 (if slow_candidate_since c = 0 then c\<lparr>slow_candidate_since := now_ms\<rparr>
                  else if \<not> slow_active c \<and> now_ms \<ge> slow_candidate_since c
                          \<and> now_ms - slow_candidate_since c \<ge> CONN_QUEUE_SLOW_DEBOUNCE_MS
                       then c\<lparr>slow_active := True\<rparr>
                       else c)
               else c\<lparr>slow_candidate_since := 0\<rparr>);
          c = (if slow_active c \<and> queue_avg_bytes c < slow_exit_threshold
               then c\<lparr>slow_active := False, slow_candidate_since := 0\<rparr> else c);
          burst_factor =
            (if slow_active c \<and> burst_factor > CONN_QUEUE_SLOW_CLAMP_FACTOR
             then CONN_QUEUE_SLOW_CLAMP_FACTOR else burst_factor);
          limit_bytes = connection_compute_limit_bytes k pl fair_bytes burst_factor
      in (limit_bytes, c))"

text \<open>
  \<^verbatim>\<open>connection_record_drop\<close>. Each counter is an unsigned integer of the width that
  connection.h gives it: the increment wraps around at that width.
\<close>

definition connection_record_drop :: "macros \<Rightarrow> connection \<Rightarrow> size_t \<Rightarrow> connection" where
  "connection_record_drop k c len =
     c\<lparr>dropped_packets := (dropped_packets c + 1) mod 2 ^ dropped_packets_bits k,
       dropped_bytes := (dropped_bytes c + len) mod 2 ^ dropped_bytes_bits k,
       backpressure_events := (backpressure_events c + 1) mod 2 ^ backpressure_events_bits k\<rparr>"

definition connection_report_queue :: "macros \<Rightarrow> connection \<Rightarrow> connection" where
  "connection_report_queue k c =
     (if status_index c < 0 then c
      else
        (let queue_buffers = num_queued (zc_queue c);
             queue_bytes = (num_queued (zc_queue c) * BUFFER_POOL_BUFFER_SIZE k) mod 2 ^ 64
         in emit (Status_update_client_queue (status_index c) queue_bytes queue_buffers
                    (queue_limit_bytes c) (queue_bytes_highwater c) (queue_buffers_highwater c)
                    (dropped_packets c) (dropped_bytes c) (backpressure_events c)
                    (slow_active c)) c))"

definition connection_epoll_update_events ::
  "int \<Rightarrow> int \<Rightarrow> epoll_flag list \<Rightarrow> connection \<Rightarrow> connection" where
  "connection_epoll_update_events ep f events c = emit (Epoll_ctl_mod ep f events) c"

text \<open>
  The two quantities that \<^verbatim>\<open>connection_queue_zerocopy\<close> compares, as the source computes
  them in \<^verbatim>\<open>size_t\<close>: the queued bytes are the number of queued buffers times the buffer
  size, the projected bytes their sum with the \<^verbatim>\<open>data_size\<close> of the buffer.
\<close>

definition queued_bytes :: "macros \<Rightarrow> connection \<Rightarrow> size_t" where
  "queued_bytes k c = (num_queued (zc_queue c) * BUFFER_POOL_BUFFER_SIZE k) mod 2 ^ 64"

definition projected_bytes :: "macros \<Rightarrow> connection \<Rightarrow> buffer_ref \<Rightarrow> size_t" where
  "projected_bytes k c buf_ref = (queued_bytes k c + data_size buf_ref) mod 2 ^ 64"

text \<open>
  \<^verbatim>\<open>connection_queue_zerocopy\<close>: the result of the source and the connection after the
  call. \<open>now_ms\<close> is what \<^verbatim>\<open>get_time_ms()\<close> returns in this call.
\<close>

definition connection_queue_zerocopy ::
  "macros \<Rightarrow> pool_ext \<Rightarrow> zerocopy_state \<Rightarrow> connection \<Rightarrow> buffer_ref \<Rightarrow> int64_t
     \<Rightarrow> int \<times> connection" where
  "connection_queue_zerocopy k x zs c buf_ref now_ms =
     (if data_size buf_ref = 0 then (0, c)
      else
        (case connection_calculate_queue_limit k zs c now_ms of
           (limit_bytes, c1) \<Rightarrow>
             (let queued = queued_bytes k c1;
                  projected = projected_bytes k c1 buf_ref;
                  c2 = c1\<lparr>queue_limit_bytes := limit_bytes\<rparr>
              in if projected > limit_bytes then
                   (- 1, connection_report_queue k
                           (connection_record_drop k c2 (data_size buf_ref)))
                 else
                   (case zerocopy_queue_add (zc_queue c2) buf_ref of
                      None \<Rightarrow> (- 1, c2)
                    | Some q \<Rightarrow>
                        (let c3 = c2\<lparr>zc_queue := q\<rparr>;
                             c4 = (if queued > queue_bytes_highwater c3
                                   then c3\<lparr>queue_bytes_highwater := queued\<rparr> else c3);
                             c5 = (if num_queued (zc_queue c4) > queue_buffers_highwater c4
                                   then c4\<lparr>queue_buffers_highwater := num_queued (zc_queue c4)\<rparr>
                                   else c4);
                             c6 = connection_report_queue k c5;
                             c7 = (if zerocopy_should_flush x (zc_queue c6)
                                   then connection_epoll_update_events (epfd c6) (fd c6)
                                          [EPOLLIN, EPOLLOUT, EPOLLRDHUP, EPOLLHUP, EPOLLERR] c6
                                   else c6)
                         in (0, c7))))))"

text \<open>
  \<^verbatim>\<open>connection_queue_output\<close>. \<open>src\<close> is what is left of the input, so \<open>length src\<close> is
  \<^verbatim>\<open>remaining\<close>; \<open>clk n\<close> is the clock reading in the \<open>n\<close>-th turn of the loop. A turn copies
  \<open>chunk_size\<close> bytes into the buffer it allocated. With a buffer size of zero a turn of the
  source's loop makes no progress; not returning is the value \<open>None\<close>.
\<close>

function connection_queue_output_loop ::
  "macros \<Rightarrow> pool_ext \<Rightarrow> (nat \<Rightarrow> int64_t) \<Rightarrow> nat \<Rightarrow> zerocopy_state \<Rightarrow> connection \<Rightarrow> string
     \<Rightarrow> (int \<times> connection \<times> zerocopy_state) option" where
  "connection_queue_output_loop k x clk n zs c src =
     (if \<not> length src > 0 then Some (0, c, zs)
      else
        (case connection_alloc_output_buffer x zs c of
           (None, zs1) \<Rightarrow> Some (- 1, c, zs1)
         | (Some buf_ref, zs1) \<Rightarrow>
             (let chunk_size =
                    (if length src > BUFFER_POOL_BUFFER_SIZE k then BUFFER_POOL_BUFFER_SIZE k
                     else length src)
              in if chunk_size = 0 then None
                 else
                   (let buf = buf_ref\<lparr>data := take chunk_size src @ drop chunk_size (data buf_ref),
                                      data_size := chunk_size\<rparr>;
                        rc = connection_queue_zerocopy k x zs1 c buf (clk n)
                    in if fst rc < 0 then Some (- 1, snd rc, buffer_ref_put x buf zs1)
                       else connection_queue_output_loop k x clk (Suc n)
                              (buffer_ref_put x buf zs1) (snd rc) (drop chunk_size src)))))"
  by pat_completeness auto
termination
  by (relation "measure (\<lambda>(k, x, clk, n, zs, c, src). length src)") auto

definition connection_queue_output ::
  "macros \<Rightarrow> pool_ext \<Rightarrow> (nat \<Rightarrow> int64_t) \<Rightarrow> zerocopy_state \<Rightarrow> connection \<Rightarrow> string
     \<Rightarrow> (int \<times> connection \<times> zerocopy_state) option" where
  "connection_queue_output k x clk zs c input =
     (if length input = 0 then Some (0, c, zs)
      else connection_queue_output_loop k x clk 0 zs c input)"

definition connection_queue_output_and_flush ::
  "macros \<Rightarrow> pool_ext \<Rightarrow> (nat \<Rightarrow> int64_t) \<Rightarrow> zerocopy_state \<Rightarrow> connection \<Rightarrow> string
     \<Rightarrow> (int \<times> connection \<times> zerocopy_state) option" where
  "connection_queue_output_and_flush k x clk zs c input =
     (case connection_queue_output k x clk zs c input of
        None \<Rightarrow> None
      | Some (result, c1, zs1) \<Rightarrow>
          (if result < 0 then Some (result, c1, zs1)
           else Some (0, connection_epoll_update_events (epfd c1) (fd c1)
                           [EPOLLIN, EPOLLOUT, EPOLLRDHUP, EPOLLHUP, EPOLLERR] c1, zs1)))"

section \<open>The stream context (stream.c)\<close>

text \<open>
  The macros that stream.c takes from headers that are not among the sources. The two
  timeouts that the source multiplies as doubles are doubles.
\<close>

record stream_macros =
  MCAST_TIMEOUT_SEC :: int
  FCC_TIMEOUT_SIGNALING_MS :: int
  FCC_TIMEOUT_UNICAST_SEC :: double
  FCC_TIMEOUT_SYNC_WAIT_SEC :: double
  RTP_REORDER_TIMEOUT_MS :: int
  RTP_REORDER_BUFFER_SIZE :: nat
  SNAPSHOT_TIMEOUT_SEC :: int
  RTCP_BUFFER_SIZE :: nat

text \<open>
  The functions of multicast.c, fcc.c, rtsp.c, rtp.c and snapshot.c that stream.c calls,
  and the clock, as inputs of the model. A function that is handed the whole context may
  change all of it; one that is handed a part (\<^verbatim>\<open>&ctx->rtsp\<close>, \<^verbatim>\<open>&ctx->snapshot\<close>) changes
  that part.
\<close>

record stream_ext =
  get_time_ms :: int64_t
  join_mcast_group :: "service option \<Rightarrow> int"
  epoll_ctl_add_fails :: "int \<Rightarrow> int \<Rightarrow> bool"
  rejoin_mcast_group :: "int \<Rightarrow> service option \<Rightarrow> int"
  fcc_session_init :: fcc_session
  rtsp_session_init :: rtsp_session
  snapshot_init :: "snapshot_context \<Rightarrow> int \<times> snapshot_context"
  rtsp_parse_server_url ::
    "rtsp_session \<Rightarrow> string \<Rightarrow> string option \<Rightarrow> string option \<Rightarrow> int \<times> rtsp_session"
  rtsp_connect :: "rtsp_session \<Rightarrow> int \<times> rtsp_session"
  fcc_initialize_and_request :: "stream_context \<Rightarrow> int \<times> stream_context"
  fcc_handle_server_response ::
    "stream_context \<Rightarrow> string \<Rightarrow> int \<Rightarrow> sockaddr_in \<Rightarrow> int \<times> stream_context"
  fcc_handle_sync_notification :: "stream_context \<Rightarrow> int \<Rightarrow> int \<times> stream_context"
  fcc_handle_unicast_media :: "stream_context \<Rightarrow> buffer_ref \<Rightarrow> int \<times> stream_context"
  fcc_handle_mcast_active :: "stream_context \<Rightarrow> buffer_ref \<Rightarrow> int \<times> stream_context"
  fcc_handle_mcast_transition :: "stream_context \<Rightarrow> buffer_ref \<Rightarrow> int \<times> stream_context"
  rtsp_handle_socket_event :: "rtsp_session \<Rightarrow> nat \<Rightarrow> int \<times> rtsp_session"
  rtsp_handle_udp_rtp_data :: "rtsp_session \<Rightarrow> int \<times> rtsp_session"
  rtsp_send_keepalive :: "rtsp_session \<Rightarrow> int \<times> rtsp_session"
  rtp_reorder_timeout_recovery :: "stream_context \<Rightarrow> stream_context"
  snapshot_fallback_to_streaming :: "snapshot_context \<Rightarrow> snapshot_context"

text \<open>
  What the kernel and the pool answer during one call of \<^verbatim>\<open>stream_handle_fd_event\<close>: the
  result of \<^verbatim>\<open>buffer_pool_alloc()\<close>, and of the one \<^verbatim>\<open>recv\<close> or \<^verbatim>\<open>recvfrom\<close> into the
  buffer: its return value, whether \<^verbatim>\<open>errno\<close> is \<^verbatim>\<open>EAGAIN\<close>, the datagram and its sender.
\<close>

record recv_io =
  alloc_result :: "buffer_ref option"
  recv_ret :: int
  recv_eagain :: bool
  recv_bytes :: string
  recv_peer :: sockaddr_in

datatype process_exit = Exit_sock_read_failed

definition ctx_emit :: "action \<Rightarrow> stream_context \<Rightarrow> stream_context" where
  "ctx_emit a ctx = ctx\<lparr>ctx_trace := ctx_trace ctx @ [a]\<rparr>"


definition size_t_of_int :: "int \<Rightarrow> size_t" where
  "size_t_of_int i = nat (i mod 2 ^ 64)"

definition first_byte :: "string \<Rightarrow> nat option" where
  "first_byte s = (case s of [] \<Rightarrow> None | ch # _ \<Rightarrow> Some (of_char ch))"

text \<open>
  Modelled from the spec: \<^verbatim>\<open>fcc_session_set_state\<close> of fcc.c, which is not among the
  sources. The specification describes its calls as transitions that set the state of the
  FCC session ("sets \<^verbatim>\<open>MCAST_ACTIVE\<close>"); the reason string is for the log.
\<close>

definition fcc_session_set_state :: "fcc_session \<Rightarrow> fcc_state_t \<Rightarrow> fcc_session" where
  "fcc_session_set_state f new_state = f\<lparr>fcc_state := new_state\<rparr>"

text \<open>
  \<^verbatim>\<open>stream_join_mcast_group\<close> returns the socket. When the socket cannot be added to the
  epoll set the source closes it and exits the process.
\<close>

definition stream_join_mcast_group ::
  "stream_ext \<Rightarrow> stream_context \<Rightarrow> process_exit + (int \<times> stream_context)" where
  "stream_join_mcast_group sx ctx =
     (let sock = join_mcast_group sx (ctx_service ctx);
          ctx1 = ctx_emit Join_mcast_group ctx
      in if sock > 0 then
           (if epoll_ctl_add_fails sx (epoll_fd ctx1) sock then Inl Exit_sock_read_failed
            else
              (let ctx2 = ctx_emit (Fdmap_set sock) (ctx_emit (Epoll_ctl_add (epoll_fd ctx1) sock) ctx1);
                   now = get_time_ms sx
               in Inr (sock, ctx2\<lparr>last_mcast_data_time := now, last_mcast_rejoin_time := now\<rparr>)))
         else Inr (sock, ctx1))"

subsection \<open>stream\_handle\_fd\_event\<close>

definition handle_fcc_event ::
  "macros \<Rightarrow> stream_ext \<Rightarrow> recv_io \<Rightarrow> stream_context \<Rightarrow> int64_t \<Rightarrow> int \<times> stream_context" where
  "handle_fcc_event k sx io ctx now =
     (case alloc_result io of
        None \<Rightarrow>
          (0, ctx_emit (Recvfrom_dummy (fcc_sock (fcc ctx)) (BUFFER_POOL_BUFFER_SIZE k))
                (ctx\<lparr>last_fcc_data_time := now\<rparr>))
      | Some recv_buf \<Rightarrow>
          (let ctx1 = ctx_emit (Recvfrom_into_buffer (fcc_sock (fcc ctx))
                                  (BUFFER_POOL_BUFFER_SIZE k)) ctx;
               actualr = recv_ret io;
               peer_addr = recv_peer io
           in if actualr < 0 \<and> \<not> recv_eagain io then (0, ctx_emit Buffer_ref_put ctx1)
              else if sin_addr peer_addr \<noteq> sin_addr (fcc_server (fcc ctx1))
              then (0, ctx_emit Buffer_ref_put ctx1)
              else
                (let ctx2 = ctx1\<lparr>last_fcc_data_time := now\<rparr>;
                     buf = recv_buf\<lparr>data := take (nat actualr) (recv_bytes io)
                                              @ drop (nat actualr) (data recv_buf),
                                     data_size := size_t_of_int actualr\<rparr>;
                     recv_data = data buf
                 in if sin_port peer_addr = sin_port (fcc_server (fcc ctx2)) then
                      (if first_byte recv_data = Some 0x83 then
                         (case fcc_handle_server_response sx ctx2 recv_data actualr peer_addr of
                            (res, ctx3) \<Rightarrow>
                              if res = 1 then
                                (case fcc_initialize_and_request sx ctx3 of
                                   (r, ctx4) \<Rightarrow>
                                     if r < 0 then (- 1, ctx_emit Buffer_ref_put ctx4)
                                     else (0, ctx_emit Buffer_ref_put ctx4))
                              else (res, ctx_emit Buffer_ref_put ctx3))
                       else if first_byte recv_data = Some 0x84 then
                         (case fcc_handle_sync_notification sx ctx2 0 of
                            (result, ctx3) \<Rightarrow> (result, ctx_emit Buffer_ref_put ctx3))
                       else (0, ctx_emit Buffer_ref_put ctx2))
                    else if sin_port peer_addr = media_port (fcc ctx2) then
                      (case fcc_handle_unicast_media sx ctx2 buf of
                         (result, ctx3) \<Rightarrow> (result, ctx_emit Buffer_ref_put ctx3))
                    else (0, ctx_emit Buffer_ref_put ctx2))))"

definition handle_mcast_event ::
  "macros \<Rightarrow> stream_ext \<Rightarrow> recv_io \<Rightarrow> stream_context \<Rightarrow> int64_t \<Rightarrow> int \<times> stream_context" where
  "handle_mcast_event k sx io ctx now =
     (case alloc_result io of
        None \<Rightarrow>
          (0, ctx_emit (Recv_dummy (mcast_sock ctx) (BUFFER_POOL_BUFFER_SIZE k))
                (ctx\<lparr>last_mcast_data_time := now\<rparr>))
      | Some recv_buf \<Rightarrow>
          (let ctx1 = ctx_emit (Recv_into_buffer (mcast_sock ctx) (BUFFER_POOL_BUFFER_SIZE k)) ctx;
               actualr = recv_ret io
           in if actualr < 0 \<and> \<not> recv_eagain io then (0, ctx_emit Buffer_ref_put ctx1)
              else
                (let ctx2 = ctx1\<lparr>last_mcast_data_time := now\<rparr>;
                     buf = recv_buf\<lparr>data := take (nat actualr) (recv_bytes io)
                                              @ drop (nat actualr) (data recv_buf),
                                     data_size := size_t_of_int actualr\<rparr>
                 in case fcc_state (fcc ctx2) of
                      FCC_STATE_MCAST_ACTIVE \<Rightarrow>
                        (case fcc_handle_mcast_active sx ctx2 buf of
                           (result, ctx3) \<Rightarrow> (result, ctx_emit Buffer_ref_put ctx3))
                    | FCC_STATE_MCAST_REQUESTED \<Rightarrow>
                        (case fcc_handle_mcast_transition sx ctx2 buf of
                           (result, ctx3) \<Rightarrow> (result, ctx_emit Buffer_ref_put ctx3))
                    | _ \<Rightarrow> (0, ctx_emit Buffer_ref_put ctx2))))"

text \<open>
  \<^verbatim>\<open>stream_handle_fd_event\<close> tests the descriptor against the sockets of the context in
  this order: FCC, multicast, RTSP control, RTSP RTP, RTSP RTCP. The two definitions above
  are its first two branches.
\<close>

definition stream_handle_fd_event ::
  "macros \<Rightarrow> stream_macros \<Rightarrow> stream_ext \<Rightarrow> recv_io \<Rightarrow> stream_context \<Rightarrow> int \<Rightarrow> nat \<Rightarrow> int64_t
     \<Rightarrow> int \<times> stream_context" where
  "stream_handle_fd_event k sm sx io ctx f events now =
     (if fcc_sock (fcc ctx) > 0 \<and> f = fcc_sock (fcc ctx) then handle_fcc_event k sx io ctx now
      else if mcast_sock ctx > 0 \<and> f = mcast_sock ctx then handle_mcast_event k sx io ctx now
      else if rtsp_socket (rtsp ctx) > 0 \<and> f = rtsp_socket (rtsp ctx) then
        (case rtsp_handle_socket_event sx (rtsp ctx) events of
           (result, r) \<Rightarrow>
             (let ctx1 = ctx\<lparr>rtsp := r\<rparr>
              in if result < 0 then (- 1, ctx1)
                 else if result > 0
                 then (0, ctx1\<lparr>total_bytes_sent :=
                                 (total_bytes_sent ctx1 + nat result) mod 2 ^ 64\<rparr>)
                 else (0, ctx1)))
      else if rtp_socket (rtsp ctx) > 0 \<and> f = rtp_socket (rtsp ctx) then
        (case rtsp_handle_udp_rtp_data sx (rtsp ctx) of
           (result, r) \<Rightarrow>
             (let ctx1 = ctx\<lparr>rtsp := r\<rparr>
              in if result < 0 then (- 1, ctx1)
                 else if result > 0
                 then (0, ctx1\<lparr>total_bytes_sent :=
                                 (total_bytes_sent ctx1 + nat result) mod 2 ^ 64\<rparr>)
                 else (0, ctx1)))
      else if rtcp_socket (rtsp ctx) > 0 \<and> f = rtcp_socket (rtsp ctx) then
        (0, ctx_emit (Recv_rtcp (rtcp_socket (rtsp ctx))) ctx)
      else (0, ctx))"

subsection \<open>stream\_context\_init\_for\_worker\<close>

definition stream_context_zero :: "stream_macros \<Rightarrow> action list \<Rightarrow> stream_context" where
  "stream_context_zero sm tr =
     \<lparr>ctx_service = None, epoll_fd = 0, ctx_status_index = 0, mcast_sock = 0,
      fcc = \<lparr>fcc_state = FCC_STATE_INIT, fcc_sock = 0,
             fcc_server = \<lparr>sin_addr = 0, sin_port = 0\<rparr>, media_port = 0,
             unicast_start_time = 0, fcc_status_index = 0\<rparr>,
      rtsp = \<lparr>rtsp_state = RTSP_STATE_INIT, transport_mode = RTSP_TRANSPORT_TCP,
              keepalive_interval_ms = 0, session_id = [], last_keepalive_ms = 0,
              rtsp_socket = 0, rtp_socket = 0, rtcp_socket = 0, rtsp_status_index = 0,
              rtsp_epoll_fd = 0\<rparr>,
      snapshot = \<lparr>enabled = False, start_time = 0, fallback_to_streaming = False\<rparr>,
      total_bytes_sent = 0, last_bytes_sent = 0, last_status_update = 0,
      last_mcast_data_time = 0, last_fcc_data_time = 0, last_mcast_rejoin_time = 0,
      reorder_enabled = False, reorder_slots = replicate (RTP_REORDER_BUFFER_SIZE sm) None,
      reorder_expected_seqn = 0, reorder_base_seqn = 0, reorder_first_packet = False,
      reorder_waiting = False, reorder_wait_start = 0, reorder_drops = 0,
      reorder_duplicates = 0, reorder_out_of_order = 0, reorder_recovered = 0,
      ctx_trace = tr\<rparr>"

text \<open>
  The context is cleared and filled; the trace of calls, which is not a field of the
  source, is kept. The service is the one the caller resolved, never \<^verbatim>\<open>NULL\<close>.
\<close>

definition stream_context_init_for_worker ::
  "stream_macros \<Rightarrow> stream_ext \<Rightarrow> stream_context \<Rightarrow> service \<Rightarrow> int \<Rightarrow> int \<Rightarrow> int
     \<Rightarrow> process_exit + (int \<times> stream_context)" where
  "stream_context_init_for_worker sm sx old svc ep status_idx is_snapshot =
     (let ctx = (stream_context_zero sm (ctx_trace old))
                  \<lparr>ctx_service := Some svc, epoll_fd := ep, ctx_status_index := status_idx,
                   fcc := (fcc_session_init sx)\<lparr>fcc_status_index := status_idx\<rparr>,
                   rtsp := (rtsp_session_init sx)\<lparr>rtsp_status_index := status_idx\<rparr>,
                   total_bytes_sent := 0, last_bytes_sent := 0,
                   last_status_update := get_time_ms sx,
                   last_mcast_data_time := get_time_ms sx,
                   last_fcc_data_time := get_time_ms sx,
                   last_mcast_rejoin_time := get_time_ms sx,
                   reorder_enabled := True,
                   reorder_slots := replicate (RTP_REORDER_BUFFER_SIZE sm) None,
                   reorder_expected_seqn := 0, reorder_base_seqn := 0,
                   reorder_first_packet := True, reorder_waiting := False,
                   reorder_wait_start := 0, reorder_drops := 0, reorder_duplicates := 0,
                   reorder_out_of_order := 0, reorder_recovered := 0\<rparr>;
          snap = (if is_snapshot \<noteq> 0 then snapshot_init sx (snapshot ctx) else (0, snapshot ctx))
      in if is_snapshot \<noteq> 0 \<and> fst snap < 0 then Inr (- 1, ctx\<lparr>snapshot := snd snap\<rparr>)
         else
           (let ctx1 = ctx\<lparr>snapshot :=
                             (if is_snapshot = 2 then (snd snap)\<lparr>fallback_to_streaming := True\<rparr>
                              else snd snap)\<rparr>
            in if service_type svc = SERVICE_RTSP then
                 (let ctx2 = ctx1\<lparr>rtsp := (rtsp ctx1)\<lparr>rtsp_epoll_fd := epoll_fd ctx1\<rparr>\<rparr>
                  in case rtsp_url svc of
                       None \<Rightarrow> Inr (- 1, ctx2)
                     | Some u \<Rightarrow>
                         (case rtsp_parse_server_url sx (rtsp ctx2) u (playseek_param svc)
                                 (user_agent svc) of
                            (p, r1) \<Rightarrow>
                              if p < 0 then Inr (- 1, ctx2\<lparr>rtsp := r1\<rparr>)
                              else
                                (case rtsp_connect sx r1 of
                                   (cn, r2) \<Rightarrow>
                                     if cn < 0 then Inr (- 1, ctx2\<lparr>rtsp := r2\<rparr>)
                                     else Inr (0, ctx2\<lparr>rtsp := r2\<rparr>))))
               else if fcc_addr svc \<noteq> None then
                 (case fcc_initialize_and_request sx ctx1 of
                    (r, ctx2) \<Rightarrow> if r < 0 then Inr (- 1, ctx2) else Inr (0, ctx2))
               else
                 (case stream_join_mcast_group sx ctx1 of
                    Inl e \<Rightarrow> Inl e
                  | Inr (sock, ctx2) \<Rightarrow>
                      Inr (0, ctx2\<lparr>mcast_sock := sock,
                                   fcc := fcc_session_set_state (fcc ctx2)
                                            FCC_STATE_MCAST_ACTIVE\<rparr>))))"

subsection \<open>stream\_tick\<close>




definition tick_rtsp_keepalive :: "stream_ext \<Rightarrow> stream_context \<Rightarrow> int64_t \<Rightarrow> stream_context" where
  "tick_rtsp_keepalive sx ctx now =
     (if rtsp_state (rtsp ctx) = RTSP_STATE_PLAYING
         \<and> transport_mode (rtsp ctx) = RTSP_TRANSPORT_UDP
         \<and> keepalive_interval_ms (rtsp ctx) > 0
         \<and> session_id (rtsp ctx) \<noteq> [] then
        (let r = (if last_keepalive_ms (rtsp ctx) = 0 then (rtsp ctx)\<lparr>last_keepalive_ms := now\<rparr>
                  else rtsp ctx);
             keepalive_elapsed = now - last_keepalive_ms r
         in if keepalive_elapsed \<ge> keepalive_interval_ms r then
              (case rtsp_send_keepalive sx r of
                 (ka_status, r1) \<Rightarrow>
                   ctx\<lparr>rtsp := (if ka_status = 0 then r1\<lparr>last_keepalive_ms := now\<rparr> else r1)\<rparr>)
            else ctx\<lparr>rtsp := r\<rparr>)
      else ctx)"

definition tick_reorder ::
  "stream_macros \<Rightarrow> stream_ext \<Rightarrow> stream_context \<Rightarrow> int64_t \<Rightarrow> stream_context" where
  "tick_reorder sm sx ctx now =
     (if reorder_waiting ctx then
        (let wait_duration = now - reorder_wait_start ctx
         in if wait_duration \<ge> RTP_REORDER_TIMEOUT_MS sm
            then (rtp_reorder_timeout_recovery sx ctx)\<lparr>reorder_waiting := False\<rparr>
            else ctx)
      else ctx)"

definition tick_snapshot ::
  "stream_macros \<Rightarrow> stream_ext \<Rightarrow> stream_context \<Rightarrow> int64_t \<Rightarrow> stream_context" where
  "tick_snapshot sm sx ctx now =
     (if enabled (snapshot ctx) then
        (let snapshot_elapsed = now - start_time (snapshot ctx)
         in if snapshot_elapsed > SNAPSHOT_TIMEOUT_SEC sm * 1000
            then ctx\<lparr>snapshot := snapshot_fallback_to_streaming sx (snapshot ctx)\<rparr>
            else ctx)
      else ctx)"

definition tick_bandwidth :: "stream_context \<Rightarrow> int64_t \<Rightarrow> stream_context" where
  "tick_bandwidth ctx now =
     (if \<not> enabled (snapshot ctx) \<and> now - last_status_update ctx \<ge> 1000 then
        (let bytes_diff = nat ((int (total_bytes_sent ctx) - int (last_bytes_sent ctx)) mod 2 ^ 64);
             elapsed_ms = now - last_status_update ctx;
             current_bandwidth =
               (if elapsed_ms > 0
                then ((bytes_diff * 1000) mod 2 ^ 64 div nat elapsed_ms) mod 2 ^ 32 else 0);
             ctx1 = ctx_emit (Status_update_client_bytes (ctx_status_index ctx)
                                (total_bytes_sent ctx) current_bandwidth) ctx
         in ctx1\<lparr>last_bytes_sent := total_bytes_sent ctx1, last_status_update := now\<rparr>)
      else ctx)"

definition tick_tail ::
  "stream_macros \<Rightarrow> stream_ext \<Rightarrow> stream_context \<Rightarrow> int64_t \<Rightarrow> stream_context" where
  "tick_tail sm sx ctx now =
     tick_bandwidth (tick_snapshot sm sx (tick_reorder sm sx (tick_rtsp_keepalive sx ctx now) now) now)
       now"


section \<open>Routing (connection.c)\<close>

subsection \<open>C strings\<close>

text \<open>
  A C string is the list of its characters before the terminating zero. \<^verbatim>\<open>strchr\<close> gives
  the offset of the first occurrence; \<^verbatim>\<open>strncmp(a, b, n) == 0\<close> holds when the first \<open>n\<close>
  characters agree; \<^verbatim>\<open>strcasecmp\<close> compares after \<^verbatim>\<open>tolower\<close>, which in the C locale
  changes the letters A to Z only; \<^verbatim>\<open>strstr(h, n) != NULL\<close> holds when \<open>n\<close> occurs in \<open>h\<close>.
\<close>

primrec strchr :: "string \<Rightarrow> char \<Rightarrow> nat option" where
  "strchr [] ch = None"
| "strchr (y # ys) ch = (if y = ch then Some 0 else map_option Suc (strchr ys ch))"

definition strncmp_eq :: "string \<Rightarrow> string \<Rightarrow> nat \<Rightarrow> bool" where
  "strncmp_eq a b n = (take n a = take n b)"

definition c_tolower :: "char \<Rightarrow> char" where
  "c_tolower ch =
     (case map_of (zip ''ABCDEFGHIJKLMNOPQRSTUVWXYZ'' ''abcdefghijklmnopqrstuvwxyz'') ch of
        Some l \<Rightarrow> l | None \<Rightarrow> ch)"

definition strcasecmp_eq :: "string \<Rightarrow> string \<Rightarrow> bool" where
  "strcasecmp_eq a b = (map c_tolower a = map c_tolower b)"

primrec strstr_found :: "string \<Rightarrow> string \<Rightarrow> bool" where
  "strstr_found [] needle = (needle = [])"
| "strstr_found (y # ys) needle = (take (length needle) (y # ys) = needle \<or> strstr_found ys needle)"

function string_of_nat :: "nat \<Rightarrow> string" where
  "string_of_nat n =
     (if n < 10 then [''0123456789'' ! n]
      else string_of_nat (n div 10) @ [''0123456789'' ! (n mod 10)])"
  by pat_completeness auto
termination
  by (relation "measure id") auto

definition HTTP_URL_BUFFER_SIZE :: nat where
  "HTTP_URL_BUFFER_SIZE = 1024"

subsection \<open>Collaborators and globals\<close>

text \<open>
  The functions of http.c, service.c, status.c and m3u.c whose results routing uses, as
  inputs of the model. \<^verbatim>\<open>http_parse_query_param\<close> gives the value of a parameter of the
  query string when it returns 0, \<^verbatim>\<open>http_url_decode\<close> the decoded string when it returns 0.
\<close>

record route_ext =
  http_parse_query_param :: "string \<Rightarrow> string \<Rightarrow> nat \<Rightarrow> string option"
  http_url_decode :: "string \<Rightarrow> string option"
  service_create_from_udpxy_url :: "string \<Rightarrow> service option"
  service_create_with_query_merge :: "service \<Rightarrow> string \<Rightarrow> service_type_t \<Rightarrow> service option"
  service_clone :: "service \<Rightarrow> service option"
  status_handle_sse_init :: "connection \<Rightarrow> int \<times> connection"
  status_register_client :: "nat \<Rightarrow> string \<Rightarrow> int"
  m3u_get_transformed_playlist :: "string option"

text \<open>
  The globals that routing reads (\<^verbatim>\<open>config\<close>, \<^verbatim>\<open>services\<close>, \<^verbatim>\<open>status_shared\<close>), the macros
  and the collaborators, in one record.
\<close>

record env =
  env_macros :: macros
  env_stream_macros :: stream_macros
  env_pool :: pool_ext
  env_stream :: stream_ext
  env_route :: route_ext
  env_clock :: "nat \<Rightarrow> int64_t"
  cfg :: config
  services :: "service list"
  status_shared :: "status_shared_t option"

text \<open>
  Modelled from the spec: \<^verbatim>\<open>http_send_400\<close> of http.c, which is not among the sources.
  The specification says of the request-layer rejections that they are "mapped to HTTP
  status and close": the call is recorded and the connection is marked \<^verbatim>\<open>CONN_CLOSING\<close>.
\<close>

definition http_send_400 :: "connection \<Rightarrow> connection" where
  "http_send_400 c = (emit Http_send_400 c)\<lparr>state := CONN_CLOSING\<rparr>"

text \<open>
  Modelled from the spec: \<^verbatim>\<open>http_send_401\<close> of http.c, which is not among the sources.
  The specification says of the request-layer rejections that they are "mapped to HTTP
  status and close": the call is recorded and the connection is marked \<^verbatim>\<open>CONN_CLOSING\<close>.
\<close>

definition http_send_401 :: "connection \<Rightarrow> connection" where
  "http_send_401 c = (emit Http_send_401 c)\<lparr>state := CONN_CLOSING\<rparr>"

text \<open>
  Modelled from the spec: \<^verbatim>\<open>http_send_404\<close> of http.c, which is not among the sources.
  The specification says of the request-layer rejections that they are "mapped to HTTP
  status and close": the call is recorded and the connection is marked \<^verbatim>\<open>CONN_CLOSING\<close>.
\<close>

definition http_send_404 :: "connection \<Rightarrow> connection" where
  "http_send_404 c = (emit Http_send_404 c)\<lparr>state := CONN_CLOSING\<rparr>"

text \<open>
  Modelled from the spec: \<^verbatim>\<open>http_send_500\<close> of http.c, which is not among the sources.
  The specification says of the request-layer rejections that they are "mapped to HTTP
  status and close": the call is recorded and the connection is marked \<^verbatim>\<open>CONN_CLOSING\<close>.
\<close>

definition http_send_500 :: "connection \<Rightarrow> connection" where
  "http_send_500 c = (emit Http_send_500 c)\<lparr>state := CONN_CLOSING\<rparr>"

text \<open>
  Modelled from the spec: \<^verbatim>\<open>http_send_503\<close> of http.c, which is not among the sources.
  The specification says of the request-layer rejections that they are "mapped to HTTP
  status and close": the call is recorded and the connection is marked \<^verbatim>\<open>CONN_CLOSING\<close>.
\<close>

definition http_send_503 :: "connection \<Rightarrow> connection" where
  "http_send_503 c = (emit Http_send_503 c)\<lparr>state := CONN_CLOSING\<rparr>"

text \<open>\<^verbatim>\<open>send_http_headers\<close> and \<^verbatim>\<open>service_free\<close> are recorded calls.\<close>

definition send_http_headers ::
  "connection \<Rightarrow> http_status \<Rightarrow> content_type \<Rightarrow> string option \<Rightarrow> connection" where
  "send_http_headers c status ctype extra_headers = emit (Send_http_headers status ctype extra_headers) c"

definition service_free :: "service \<Rightarrow> connection \<Rightarrow> connection" where
  "service_free svc c = emit (Service_free svc) c"

text \<open>
  Modelled from the spec: \<^verbatim>\<open>zerocopy_register_stream_client\<close> of zerocopy.c, which is not
  among the sources. The specification says that a streaming connection "registers as a
  streaming client in ... the buffer-pool stream count"; that count is what
  \<^verbatim>\<open>zerocopy_active_streams()\<close> returns.
\<close>

definition zerocopy_register_stream_client :: "zerocopy_state \<Rightarrow> zerocopy_state" where
  "zerocopy_register_stream_client zs =
     zs\<lparr>zerocopy_active_streams := zerocopy_active_streams zs + 1\<rparr>"

subsection \<open>handle\_playlist\_request\<close>

definition handle_playlist_request ::
  "env \<Rightarrow> zerocopy_state \<Rightarrow> connection \<Rightarrow> (connection \<times> zerocopy_state) option" where
  "handle_playlist_request e zs c =
     (case m3u_get_transformed_playlist (env_route e) of
        None \<Rightarrow> Some (http_send_404 c, zs)
      | Some playlist \<Rightarrow>
          (let playlist_len = length playlist;
               extra_headers =
                 take 127 (''Content-Type: audio/x-mpegurl'' @ [CHR 0x0D, CHR 0x0A]
                           @ ''Content-Length: '' @ string_of_nat playlist_len
                           @ [CHR 0x0D, CHR 0x0A]);
               c1 = send_http_headers c STATUS_200 CONTENT_HTML (Some extra_headers)
           in case connection_queue_output_and_flush (env_macros e) (env_pool e) (env_clock e)
                     zs c1 playlist of
                None \<Rightarrow> None
              | Some (result, c2, zs2) \<Rightarrow> Some (c2, zs2)))"

subsection \<open>connection\_route\_and\_start\<close>

text \<open>
  The Host check of the source: with a hostname configured, a request is rejected when
  it has no Host header or when the header, cut at the first colon and to 255 characters,
  differs from the hostname, letter case apart.
\<close>

definition host_without_port :: "string \<Rightarrow> string" where
  "host_without_port h =
     (case strchr h (CHR '':'') of
        Some host_len \<Rightarrow> take (if host_len \<ge> 256 then 255 else host_len) h
      | None \<Rightarrow> take 255 h)"

definition host_rejected :: "config \<Rightarrow> http_request \<Rightarrow> bool" where
  "host_rejected cf r =
     (case cfg_hostname cf of
        None \<Rightarrow> False
      | Some hn \<Rightarrow>
          hn \<noteq> [] \<and> (req_hostname r = [] \<or> \<not> strcasecmp_eq (host_without_port (req_hostname r)) hn))"

text \<open>
  The token check of the source, which sends 401 at four places: no query string, no
  \<^verbatim>\<open>r2h-token\<close> parameter, a value that does not decode, a decoded value that differs from
  the configured token.
\<close>

definition token_rejected :: "route_ext \<Rightarrow> config \<Rightarrow> string \<Rightarrow> nat option \<Rightarrow> bool" where
  "token_rejected rx cf service_path query_start =
     (case r2h_token cf of
        None \<Rightarrow> False
      | Some tok \<Rightarrow>
          tok \<noteq> [] \<and>
          (case query_start of
             None \<Rightarrow> True
           | Some q \<Rightarrow>
               (case http_parse_query_param rx (drop (Suc q) service_path) ''r2h-token'' 256 of
                  None \<Rightarrow> True
                | Some token_value \<Rightarrow>
                    (case http_url_decode rx token_value of
                       None \<Rightarrow> True
                     | Some decoded \<Rightarrow> decoded \<noteq> tok))))"

definition snapshot_request ::
  "route_ext \<Rightarrow> config \<Rightarrow> http_request \<Rightarrow> string \<Rightarrow> nat option \<Rightarrow> int" where
  "snapshot_request rx cf r service_path query_start =
     (if video_snapshot cf then
        (if x_request_snapshot r then 2
         else if req_accept r \<noteq> [] \<and> strstr_found (req_accept r) ''image/jpeg'' then 2
         else
           (case query_start of
              None \<Rightarrow> 0
            | Some q \<Rightarrow>
                (case http_parse_query_param rx (drop (Suc q) service_path) ''snapshot'' 16 of
                   None \<Rightarrow> 0
                 | Some snapshot_value \<Rightarrow> if snapshot_value = ''1'' then 1 else 0)))
      else 0)"

definition display_url :: "string \<Rightarrow> string \<Rightarrow> nat option \<Rightarrow> string" where
  "display_url decoded_path service_path query_start =
     (let d1 = (if 1 + length decoded_path < HTTP_URL_BUFFER_SIZE then ''/'' @ decoded_path
                else ''/'')
      in case query_start of
           None \<Rightarrow> d1
         | Some q \<Rightarrow>
             (if length d1 < HTTP_URL_BUFFER_SIZE
                 \<and> length d1 + length (drop q service_path) < HTTP_URL_BUFFER_SIZE
              then d1 @ drop q service_path else d1))"

text \<open>
  The last part of the function, from the test of the method on: \<open>svc\<close> is the service the
  path resolved to and \<open>owned\<close> tells whether the connection owns it.
\<close>

definition route_media ::
  "env \<Rightarrow> zerocopy_state \<Rightarrow> connection \<Rightarrow> service \<Rightarrow> bool \<Rightarrow> string \<Rightarrow> string \<Rightarrow> nat option
     \<Rightarrow> (process_exit + (int \<times> connection \<times> zerocopy_state)) option" where
  "route_media e zs c svc owned decoded_path service_path query_start =
     (if strcasecmp_eq (req_method (http_req c)) ''HEAD'' then
        (let c1 = send_http_headers c STATUS_200 CONTENT_MP2T None;
             c2 = connection_epoll_update_events (epfd c1) (fd c1)
                    [EPOLLIN, EPOLLOUT, EPOLLRDHUP, EPOLLHUP, EPOLLERR] c1;
             c3 = (if owned then service_free svc c2 else c2)
         in Some (Inr (0, c3\<lparr>state := CONN_CLOSING\<rparr>, zs)))
      else
        (let svc1 = (if owned \<and> req_user_agent (http_req c) \<noteq> []
                     then svc\<lparr>user_agent := Some (req_user_agent (http_req c))\<rparr> else svc)
         in if (case status_shared e of
                  None \<Rightarrow> False
                | Some sh \<Rightarrow> total_clients sh \<ge> maxclients (cfg e)) then
              (let c1 = http_send_503 c
               in Some (Inr (0, if owned then service_free svc1 c1 else c1, zs)))
            else
              (let is_snapshot_request =
                     snapshot_request (env_route e) (cfg e) (http_req c) service_path query_start;
                   c1 = (if client_addr_len c > 0 then
                           (let d = display_url decoded_path service_path query_start
                            in (emit (Status_register_client d) c)
                                 \<lparr>status_index :=
                                    status_register_client (env_route e) (client_addr_len c) d\<rparr>)
                         else c\<lparr>status_index := - 1\<rparr>);
                   c2 = (if is_snapshot_request = 0
                         then send_http_headers c1 STATUS_200 CONTENT_MP2T None else c1)
               in case stream_context_init_for_worker (env_stream_macros e) (env_stream e)
                         (stream c2) svc1 (epfd c2) (status_index c2) is_snapshot_request of
                    Inl ex \<Rightarrow> Some (Inl ex)
                  | Inr (r, ctx) \<Rightarrow>
                      (let c3 = c2\<lparr>stream := ctx\<rparr>
                       in if r = 0 then
                            (let reg = (is_snapshot_request = 0 \<and> \<not> stream_registered c3);
                                 zs1 = (if reg then zerocopy_register_stream_client zs else zs);
                                 c4 = (if reg then c3\<lparr>stream_registered := True\<rparr> else c3)
                             in Some (Inr (0, c4\<lparr>streaming := True, conn_service := Some svc1,
                                                  service_owned := owned, state := CONN_STREAMING,
                                                  buffer_class := CONNECTION_BUFFER_MEDIA\<rparr>, zs1)))
                          else
                            Some (Inr (- 1, (if owned then service_free svc1 c3 else c3)
                                              \<lparr>state := CONN_CLOSING\<rparr>, zs))))))"

text \<open>
  The part before it: the path is decoded and matched against the configured services;
  a configured service is merged with the query or cloned, an unknown path is parsed as
  a udpxy URL when that is enabled.
\<close>

definition route_service ::
  "env \<Rightarrow> zerocopy_state \<Rightarrow> connection \<Rightarrow> string \<Rightarrow> nat option \<Rightarrow> nat
     \<Rightarrow> (process_exit + (int \<times> connection \<times> zerocopy_state)) option" where
  "route_service e zs c service_path query_start path_len =
     (if path_len \<ge> HTTP_URL_BUFFER_SIZE then Some (Inr (0, http_send_400 c, zs))
      else
        (case http_url_decode (env_route e) (take path_len service_path) of
           None \<Rightarrow> Some (Inr (0, http_send_400 c, zs))
         | Some decoded_path \<Rightarrow>
             (case find (\<lambda>s. decoded_path = url s) (services e) of
                None \<Rightarrow>
                  (if udpxy (cfg e) then
                     (case service_create_from_udpxy_url (env_route e) (req_url (http_req c)) of
                        None \<Rightarrow> Some (Inr (0, http_send_404 c, zs))
                      | Some svc \<Rightarrow>
                          route_media e zs c svc True decoded_path service_path query_start)
                   else Some (Inr (0, http_send_404 c, zs)))
              | Some configured \<Rightarrow>
                  (case service_create_with_query_merge (env_route e) configured
                          (req_url (http_req c)) (service_type configured) of
                     Some merged_service \<Rightarrow>
                       route_media e zs c merged_service True decoded_path service_path query_start
                   | None \<Rightarrow>
                       (case service_clone (env_route e) configured of
                          None \<Rightarrow> Some (Inr (0, http_send_500 c, zs))
                        | Some cloned \<Rightarrow>
                            route_media e zs c cloned True decoded_path service_path
                              query_start)))))"

text \<open>The reserved paths, tested in the order of the source.\<close>

definition route_reserved ::
  "env \<Rightarrow> zerocopy_state \<Rightarrow> connection \<Rightarrow> string \<Rightarrow> nat option \<Rightarrow> nat
     \<Rightarrow> (process_exit + (int \<times> connection \<times> zerocopy_state)) option" where
  "route_reserved e zs c service_path query_start path_len =
     (let status_route = (case status_page_route (cfg e) of Some r \<Rightarrow> r | None \<Rightarrow> ''status'');
          status_route_len = length status_route;
          status_sse_route =
            (if status_route_len > 0
             then take (HTTP_URL_BUFFER_SIZE - 1) (status_route @ ''/sse'') else ''sse'');
          status_api_prefix =
            (if status_route_len > 0
             then take (HTTP_URL_BUFFER_SIZE - 1) (status_route @ ''/api/'') else ''api/'')
      in if status_route_len = path_len \<and> strncmp_eq service_path status_route path_len then
           Some (Inr (0, (emit Handle_status_page c)\<lparr>state := CONN_CLOSING\<rparr>, zs))
         else if length ''playlist.m3u'' = path_len
                 \<and> strncmp_eq service_path ''playlist.m3u'' path_len then
           (case handle_playlist_request e zs c of
              None \<Rightarrow> None
            | Some (c1, zs1) \<Rightarrow> Some (Inr (0, c1\<lparr>state := CONN_CLOSING\<rparr>, zs1)))
         else if length status_sse_route = path_len
                 \<and> strncmp_eq service_path status_sse_route path_len then
           (case status_handle_sse_init (env_route e) (emit Status_handle_sse_init c) of
              (r, c1) \<Rightarrow> Some (Inr (r, c1, zs)))
         else if path_len \<ge> length status_api_prefix
                 \<and> strncmp_eq service_path status_api_prefix (length status_api_prefix) then
           (let api_name = drop (length status_api_prefix) service_path;
                api_name_len = path_len - length status_api_prefix
            in if api_name_len = length ''disconnect''
                  \<and> strncmp_eq api_name ''disconnect'' api_name_len then
                 Some (Inr (0, (emit Handle_disconnect_client c)\<lparr>state := CONN_CLOSING\<rparr>, zs))
               else if api_name_len = length ''log-level''
                       \<and> strncmp_eq api_name ''log-level'' api_name_len then
                 Some (Inr (0, (emit Handle_set_log_level c)\<lparr>state := CONN_CLOSING\<rparr>, zs))
               else Some (Inr (0, (http_send_404 c)\<lparr>state := CONN_CLOSING\<rparr>, zs)))
         else route_service e zs c service_path query_start path_len)"

text \<open>
  \<^verbatim>\<open>connection_route_and_start\<close>: the result of the source, the connection and the pool
  state after the call; \<open>None\<close> when the call does not return and \<open>Inl\<close> when the process
  exits.
\<close>

definition connection_route_and_start ::
  "env \<Rightarrow> zerocopy_state \<Rightarrow> connection
     \<Rightarrow> (process_exit + (int \<times> connection \<times> zerocopy_state)) option" where
  "connection_route_and_start e zs c =
     (let u = req_url (http_req c)
      in if take 1 u \<noteq> ''/'' then Some (Inr (0, http_send_400 c, zs))
         else if host_rejected (cfg e) (http_req c) then Some (Inr (0, http_send_400 c, zs))
         else
           (let service_path = drop 1 u;
                query_start = strchr service_path (CHR ''?'');
                path_len = (case query_start of Some q \<Rightarrow> q | None \<Rightarrow> length service_path)
            in if token_rejected (env_route e) (cfg e) service_path query_start
               then Some (Inr (0, http_send_401 c, zs))
               else
                 (let path_len1 =
                        (if path_len > 0 \<and> service_path ! (path_len - 1) = CHR ''/''
                         then path_len - 1 else path_len)
                  in route_reserved e zs c service_path query_start path_len1)))"

section \<open>Notions used in the statements\<close>

text \<open>
  What \<^verbatim>\<open>connection_calculate_queue_limit\<close> may change in a connection: the moving
  average and the two slow-client fields, and nothing else.
\<close>

definition slow_frame :: "connection \<Rightarrow> connection \<Rightarrow> bool" where
  "slow_frame c c' =
     (c' = c\<lparr>queue_avg_bytes := queue_avg_bytes c', slow_active := slow_active c',
             slow_candidate_since := slow_candidate_since c'\<rparr>)"

text \<open>
  The steps of \<^verbatim>\<open>connection_calculate_queue_limit\<close>, one definition for each local variable
  of the source; the lemma \<open>calc_blocks\<close> shows that the function is their composition.
\<close>

definition calc_fair_bytes :: "macros \<Rightarrow> zerocopy_state \<Rightarrow> size_t" where
  "calc_fair_bytes k zs =
     ((if (if num_buffers (pool zs) \<noteq> 0 then num_buffers (pool zs) else BUFFER_POOL_INITIAL_SIZE k)
            div (if zerocopy_active_streams zs = 0 then 1 else zerocopy_active_streams zs)
          < CONN_QUEUE_MIN_BUFFERS
       then CONN_QUEUE_MIN_BUFFERS
       else (if num_buffers (pool zs) \<noteq> 0 then num_buffers (pool zs) else BUFFER_POOL_INITIAL_SIZE k)
            div (if zerocopy_active_streams zs = 0 then 1 else zerocopy_active_streams zs))
      * BUFFER_POOL_BUFFER_SIZE k) mod 2 ^ 64"

definition calc_utilization :: "buffer_pool \<Rightarrow> double" where
  "calc_utilization pl =
     (if max_buffers pl > 0 then
        double_div
          (double_of_size_t
             (if num_buffers pl > num_free pl then num_buffers pl - num_free pl else 0))
          (double_of_size_t (max_buffers pl))
      else 0)"

definition calc_burst_factor :: "buffer_pool \<Rightarrow> double" where
  "calc_burst_factor pl =
     (if num_free pl < low_watermark pl div 2
         \<or> calc_utilization pl \<ge> CONN_QUEUE_DRAIN_UTIL_THRESHOLD
      then CONN_QUEUE_BURST_FACTOR_DRAIN
      else if num_buffers pl \<ge> max_buffers pl
              \<or> calc_utilization pl \<ge> CONN_QUEUE_HIGH_UTIL_THRESHOLD
           then CONN_QUEUE_BURST_FACTOR_CONGESTED else CONN_QUEUE_BURST_FACTOR)"

definition calc_queue_mem_bytes :: "macros \<Rightarrow> connection \<Rightarrow> double" where
  "calc_queue_mem_bytes k c =
     double_mul (double_of_size_t (num_queued (zc_queue c)))
       (double_of_size_t (BUFFER_POOL_BUFFER_SIZE k))"

definition calc_avg :: "macros \<Rightarrow> connection \<Rightarrow> connection" where
  "calc_avg k c =
     c\<lparr>queue_avg_bytes :=
         (if queue_avg_bytes c \<le> 0 then calc_queue_mem_bytes k c
          else double_add
                 (double_mul (double_sub 1 CONN_QUEUE_EWMA_ALPHA) (queue_avg_bytes c))
                 (double_mul CONN_QUEUE_EWMA_ALPHA (calc_queue_mem_bytes k c)))\<rparr>"

definition calc_slow_threshold :: "size_t \<Rightarrow> size_t \<Rightarrow> double" where
  "calc_slow_threshold fair_bytes bursted_bytes =
     (if double_mul (double_of_size_t fair_bytes) CONN_QUEUE_SLOW_FACTOR
           > double_mul (double_of_size_t bursted_bytes) CONN_QUEUE_SLOW_LIMIT_RATIO
      then double_mul (double_of_size_t bursted_bytes) CONN_QUEUE_SLOW_LIMIT_RATIO
      else double_mul (double_of_size_t fair_bytes) CONN_QUEUE_SLOW_FACTOR)"

definition calc_limit_exit :: "size_t \<Rightarrow> size_t \<Rightarrow> double" where
  "calc_limit_exit fair_bytes bursted_bytes =
     (if double_mul (double_of_size_t fair_bytes) CONN_QUEUE_SLOW_EXIT_FACTOR
           > double_mul (double_of_size_t bursted_bytes) CONN_QUEUE_SLOW_EXIT_LIMIT_RATIO
      then double_mul (double_of_size_t bursted_bytes) CONN_QUEUE_SLOW_EXIT_LIMIT_RATIO
      else double_mul (double_of_size_t fair_bytes) CONN_QUEUE_SLOW_EXIT_FACTOR)"

definition calc_slow_exit_threshold :: "size_t \<Rightarrow> size_t \<Rightarrow> double" where
  "calc_slow_exit_threshold fair_bytes bursted_bytes =
     (if calc_limit_exit fair_bytes bursted_bytes \<ge> calc_slow_threshold fair_bytes bursted_bytes
      then double_mul (calc_slow_threshold fair_bytes bursted_bytes)
             CONN_QUEUE_SLOW_EXIT_LIMIT_RATIO
      else calc_limit_exit fair_bytes bursted_bytes)"

definition calc_candidate :: "connection \<Rightarrow> double \<Rightarrow> int64_t \<Rightarrow> connection" where
  "calc_candidate c slow_threshold now_ms =
     (if queue_avg_bytes c > slow_threshold then
        (if slow_candidate_since c = 0 then c\<lparr>slow_candidate_since := now_ms\<rparr>
         else if \<not> slow_active c \<and> now_ms \<ge> slow_candidate_since c
                 \<and> now_ms - slow_candidate_since c \<ge> CONN_QUEUE_SLOW_DEBOUNCE_MS
              then c\<lparr>slow_active := True\<rparr>
              else c)
      else c\<lparr>slow_candidate_since := 0\<rparr>)"

definition calc_exit :: "connection \<Rightarrow> double \<Rightarrow> connection" where
  "calc_exit c slow_exit_threshold =
     (if slow_active c \<and> queue_avg_bytes c < slow_exit_threshold
      then c\<lparr>slow_active := False, slow_candidate_since := 0\<rparr> else c)"

definition calc_conn :: "macros \<Rightarrow> zerocopy_state \<Rightarrow> connection \<Rightarrow> int64_t \<Rightarrow> connection" where
  "calc_conn k zs c now_ms =
     calc_exit
       (calc_candidate (calc_avg k c)
          (calc_slow_threshold (calc_fair_bytes k zs)
             (connection_compute_limit_bytes k (pool zs) (calc_fair_bytes k zs)
                (calc_burst_factor (pool zs))))
          now_ms)
       (calc_slow_exit_threshold (calc_fair_bytes k zs)
          (connection_compute_limit_bytes k (pool zs) (calc_fair_bytes k zs)
             (calc_burst_factor (pool zs))))"

text \<open>
  The invariant of a send queue of pool buffers: \<^verbatim>\<open>num_queued\<close> counts the queued buffers,
  and no buffer holds more than \<^verbatim>\<open>BUFFER_POOL_BUFFER_SIZE\<close> bytes.
\<close>

definition zc_queue_wf :: "macros \<Rightarrow> zerocopy_queue \<Rightarrow> bool" where
  "zc_queue_wf k q =
     (num_queued q = length (items q)
      \<and> list_all (\<lambda>b. data_size b \<le> BUFFER_POOL_BUFFER_SIZE k) (items q))"


text \<open>
  The query string of the URL carries an \<^verbatim>\<open>r2h-token\<close> parameter whose URL-decoded value
  is the token \<open>tok\<close>.
\<close>

definition token_matches :: "route_ext \<Rightarrow> string \<Rightarrow> string \<Rightarrow> bool" where
  "token_matches rx tok u =
     (case strchr (drop 1 u) (CHR ''?'') of
        None \<Rightarrow> False
      | Some q \<Rightarrow>
          (case http_parse_query_param rx (drop (Suc q) (drop 1 u)) ''r2h-token'' 256 of
             None \<Rightarrow> False
           | Some token_value \<Rightarrow> http_url_decode rx token_value = Some tok))"

text \<open>The path of the given length is one of the reserved paths of the given configuration.\<close>

definition reserved_path :: "config \<Rightarrow> string \<Rightarrow> nat \<Rightarrow> bool" where
  "reserved_path cf service_path path_len =
     (let status_route = (case status_page_route cf of Some r \<Rightarrow> r | None \<Rightarrow> ''status'');
          status_sse_route =
            (if length status_route > 0
             then take (HTTP_URL_BUFFER_SIZE - 1) (status_route @ ''/sse'') else ''sse'');
          status_api_prefix =
            (if length status_route > 0
             then take (HTTP_URL_BUFFER_SIZE - 1) (status_route @ ''/api/'') else ''api/'')
      in (length status_route = path_len \<and> strncmp_eq service_path status_route path_len)
         \<or> (length ''playlist.m3u'' = path_len \<and> strncmp_eq service_path ''playlist.m3u'' path_len)
         \<or> (length status_sse_route = path_len
             \<and> strncmp_eq service_path status_sse_route path_len)
         \<or> (path_len \<ge> length status_api_prefix
             \<and> strncmp_eq service_path status_api_prefix (length status_api_prefix)))"

text \<open>
  The parts of a request URL as \<^verbatim>\<open>connection_route_and_start\<close> computes them: the path
  with its query (the URL after its first character), the offset of the query in it, and
  the length of the path without the query and without one trailing slash.
\<close>

definition url_service_path :: "string \<Rightarrow> string" where
  "url_service_path u = drop 1 u"

definition url_query_start :: "string \<Rightarrow> nat option" where
  "url_query_start u = strchr (drop 1 u) (CHR ''?'')"

definition url_path_len :: "string \<Rightarrow> nat" where
  "url_path_len u =
     (if (case strchr (drop 1 u) (CHR ''?'') of Some q \<Rightarrow> q | None \<Rightarrow> length (drop 1 u)) > 0
         \<and> drop 1 u ! ((case strchr (drop 1 u) (CHR ''?'') of
                          Some q \<Rightarrow> q | None \<Rightarrow> length (drop 1 u)) - 1) = CHR ''/''
      then (case strchr (drop 1 u) (CHR ''?'') of Some q \<Rightarrow> q | None \<Rightarrow> length (drop 1 u)) - 1
      else (case strchr (drop 1 u) (CHR ''?'') of Some q \<Rightarrow> q | None \<Rightarrow> length (drop 1 u)))"

text \<open>The request passes the checks that come before the reserved paths.\<close>

definition passes_checks :: "env \<Rightarrow> connection \<Rightarrow> bool" where
  "passes_checks e c =
     (take 1 (req_url (http_req c)) = ''/''
      \<and> \<not> host_rejected (cfg e) (http_req c)
      \<and> \<not> token_rejected (env_route e) (cfg e) (url_service_path (req_url (http_req c)))
            (url_query_start (req_url (http_req c))))"

text \<open>
  The service that a decoded path resolves to, and whether the connection owns it: a
  configured service merged with the query or else cloned, or the service parsed from a
  udpxy URL when that is enabled.
\<close>

definition lookup_service :: "env \<Rightarrow> string \<Rightarrow> string \<Rightarrow> (service \<times> bool) option" where
  "lookup_service e u decoded_path =
     (case find (\<lambda>s. decoded_path = url s) (services e) of
        None \<Rightarrow>
          (if udpxy (cfg e) then
             (case service_create_from_udpxy_url (env_route e) u of
                None \<Rightarrow> None
              | Some svc \<Rightarrow> Some (svc, True))
           else None)
      | Some configured \<Rightarrow>
          (case service_create_with_query_merge (env_route e) configured u
                  (service_type configured) of
             Some merged_service \<Rightarrow> Some (merged_service, True)
           | None \<Rightarrow>
               (case service_clone (env_route e) configured of
                  None \<Rightarrow> None
                | Some cloned \<Rightarrow> Some (cloned, True))))"

text \<open>
  The request of a connection resolves to a media service: it passes the checks, its path
  is not reserved, fits the buffer and decodes, and the decoded path resolves. The result
  is the service, whether the connection owns it, and the decoded path.
\<close>

definition resolved_service :: "env \<Rightarrow> connection \<Rightarrow> (service \<times> bool \<times> string) option" where
  "resolved_service e c =
     (if passes_checks e c
         \<and> \<not> reserved_path (cfg e) (url_service_path (req_url (http_req c)))
               (url_path_len (req_url (http_req c)))
         \<and> url_path_len (req_url (http_req c)) < HTTP_URL_BUFFER_SIZE
      then
        (case http_url_decode (env_route e)
                (take (url_path_len (req_url (http_req c)))
                   (url_service_path (req_url (http_req c)))) of
           None \<Rightarrow> None
         | Some decoded_path \<Rightarrow>
             (case lookup_service e (req_url (http_req c)) decoded_path of
                None \<Rightarrow> None
              | Some (svc, owned) \<Rightarrow> Some (svc, owned, decoded_path)))
      else None)"

section \<open>Concrete inputs\<close>

text \<open>
  Buffers of 2048 bytes, 64-bit counters of dropped packets and bytes and a 32-bit counter
  of backpressure events; a conversion out of range gives 0.
\<close>

definition K2048 :: macros where
  "K2048 = \<lparr>BUFFER_POOL_BUFFER_SIZE = 2048, BUFFER_POOL_INITIAL_SIZE = 1024,
             dropped_packets_bits = 64, dropped_bytes_bits = 64, backpressure_events_bits = 32,
             size_t_of_double_undefined = (\<lambda>x. 0)\<rparr>"

definition pool64 :: buffer_pool where
  "pool64 = \<lparr>num_buffers = 64, num_free = 64, max_buffers = 64, low_watermark = 16\<rparr>"

definition zs68 :: zerocopy_state where
  "zs68 = \<lparr>pool = \<lparr>num_buffers = 68, num_free = 60, max_buffers = 68, low_watermark = 16\<rparr>,
           zerocopy_active_streams = 1\<rparr>"

text \<open>A pool interface that hands out a free buffer while one is left.\<close>

definition x0 :: pool_ext where
  "x0 = \<lparr>buffer_pool_alloc =
            (\<lambda>zs. if num_free (pool zs) = 0 then (None, zs)
                  else (Some \<lparr>data = [], data_size = 0\<rparr>,
                        zs\<lparr>pool := (pool zs)\<lparr>num_free := num_free (pool zs) - 1\<rparr>\<rparr>)),
          buffer_pool_alloc_control =
            (\<lambda>zs. if num_free (pool zs) = 0 then (None, zs)
                  else (Some \<lparr>data = [], data_size = 0\<rparr>,
                        zs\<lparr>pool := (pool zs)\<lparr>num_free := num_free (pool zs) - 1\<rparr>\<rparr>)),
          buffer_ref_put = (\<lambda>b zs. zs),
          zerocopy_should_flush = (\<lambda>q. False)\<rparr>"

definition fcc0 :: fcc_session where
  "fcc0 = \<lparr>fcc_state = FCC_STATE_INIT, fcc_sock = 0,
           fcc_server = \<lparr>sin_addr = 0, sin_port = 0\<rparr>, media_port = 0,
           unicast_start_time = 0, fcc_status_index = 0\<rparr>"

definition rtsp0 :: rtsp_session where
  "rtsp0 = \<lparr>rtsp_state = RTSP_STATE_INIT, transport_mode = RTSP_TRANSPORT_TCP,
            keepalive_interval_ms = 0, session_id = [], last_keepalive_ms = 0,
            rtsp_socket = 0, rtp_socket = 0, rtcp_socket = 0, rtsp_status_index = 0,
            rtsp_epoll_fd = 0\<rparr>"

definition ctx0 :: stream_context where
  "ctx0 = \<lparr>ctx_service = None, epoll_fd = 0, ctx_status_index = 0, mcast_sock = 0,
           fcc = fcc0, rtsp = rtsp0,
           snapshot = \<lparr>enabled = False, start_time = 0, fallback_to_streaming = False\<rparr>,
           total_bytes_sent = 0, last_bytes_sent = 0, last_status_update = 0,
           last_mcast_data_time = 0, last_fcc_data_time = 0, last_mcast_rejoin_time = 0,
           reorder_enabled = False, reorder_slots = [], reorder_expected_seqn = 0,
           reorder_base_seqn = 0, reorder_first_packet = False, reorder_waiting = False,
           reorder_wait_start = 0, reorder_drops = 0, reorder_duplicates = 0,
           reorder_out_of_order = 0, reorder_recovered = 0, ctx_trace = []\<rparr>"

definition req0 :: http_request where
  "req0 = \<lparr>req_url = ''/ch1'', req_method = ''GET'', req_hostname = ''gw'',
           req_user_agent = [], req_accept = [], x_request_snapshot = False\<rparr>"

text \<open>A connection as \<^verbatim>\<open>connection_create\<close> leaves it, on descriptor 7.\<close>

definition conn0 :: connection where
  "conn0 = \<lparr>fd = 7, epfd = 3, state = CONN_READ_REQ_LINE, http_req = req0,
            conn_service = None, service_owned = False, streaming = False,
            status_index = - 1, client_addr_len = 16,
            zc_queue = \<lparr>items = [], num_queued = 0\<rparr>,
            buffer_class = CONNECTION_BUFFER_CONTROL, queue_limit_bytes = 0,
            queue_bytes_highwater = 0, queue_buffers_highwater = 0, dropped_packets = 0,
            dropped_bytes = 0, backpressure_events = 0, stream_registered = False,
            queue_avg_bytes = 0, slow_active = False, slow_candidate_since = 0,
            stream = ctx0, trace = []\<rparr>"

definition buf_full :: buffer_ref where
  "buf_full = \<lparr>data = replicate 2048 (CHR ''x''), data_size = 2048\<rparr>"

definition buf_rtp :: buffer_ref where
  "buf_rtp = \<lparr>data = replicate 1316 (CHR ''x''), data_size = 1316\<rparr>"

definition buf_empty :: buffer_ref where
  "buf_empty = \<lparr>data = replicate 2048 (CHR ''x''), data_size = 0\<rparr>"

text \<open>
  A buffer whose \<^verbatim>\<open>data_size\<close> is \<^verbatim>\<open>(size_t)-1\<close>: what \<^verbatim>\<open>stream_handle_fd_event\<close> stores in
  \<^verbatim>\<open>recv_buf->data_size\<close> when \<^verbatim>\<open>recv\<close> returns \<open>-1\<close> with \<^verbatim>\<open>EAGAIN\<close>.
\<close>

definition buf_huge :: buffer_ref where
  "buf_huge = \<lparr>data = replicate 2048 (CHR ''x''), data_size = 18446744073709551615\<rparr>"

text \<open>
  A pool whose configured cap is \<open>2 ^ 53\<close> buffers, and a pool without a cap
  (\<^verbatim>\<open>max_buffers\<close> is 0).
\<close>

definition pool_2_53 :: buffer_pool where
  "pool_2_53 = \<lparr>num_buffers = 1024, num_free = 1024, max_buffers = 9007199254740992,
                low_watermark = 16\<rparr>"

definition pool_uncapped :: buffer_pool where
  "pool_uncapped = \<lparr>num_buffers = 1024, num_free = 1024, max_buffers = 0, low_watermark = 16\<rparr>"

text \<open>
  A pool under load, shared by sixteen stream clients: all 1024 buffers are allocated and
  ten are free.
\<close>

definition zs_busy :: zerocopy_state where
  "zs_busy = \<lparr>pool = \<lparr>num_buffers = 1024, num_free = 10, max_buffers = 1024,
                       low_watermark = 64\<rparr>,
              zerocopy_active_streams = 16\<rparr>"

definition conn_q :: "nat \<Rightarrow> connection" where
  "conn_q n = conn0\<lparr>zc_queue := \<lparr>items = replicate n buf_full, num_queued = n\<rparr>\<rparr>"

text \<open>
  Two connections that earlier calls have left behind: one after the pool of 68 buffers
  took the buffer \<open>buf_huge\<close> behind one full buffer, one after the pool under load
  refused a datagram behind a hundred full buffers.
\<close>

definition conn_after_huge :: connection where
  "conn_after_huge = snd (connection_queue_zerocopy K2048 x0 zs68 (conn_q 1) buf_huge 1000)"

definition conn_after_drop :: connection where
  "conn_after_drop = snd (connection_queue_zerocopy K2048 x0 zs_busy (conn_q 100) buf_rtp 1000)"



definition clk0 :: "nat \<Rightarrow> int64_t" where
  "clk0 n = 1000 + int n"

text \<open>
  A stream context in the FCC signalling phase: the request went out at time 0 on socket 9
  and no multicast socket is open. The collaborators: joining the group gives socket 11,
  the epoll registration succeeds, the clock reads 5000.
\<close>

definition sm0 :: stream_macros where
  "sm0 = \<lparr>MCAST_TIMEOUT_SEC = 10, FCC_TIMEOUT_SIGNALING_MS = 80,
          FCC_TIMEOUT_UNICAST_SEC = 1, FCC_TIMEOUT_SYNC_WAIT_SEC = 15,
          RTP_REORDER_TIMEOUT_MS = 40, RTP_REORDER_BUFFER_SIZE = 32,
          SNAPSHOT_TIMEOUT_SEC = 5, RTCP_BUFFER_SIZE = 1500\<rparr>"

definition cfg0 :: config where
  "cfg0 = \<lparr>cfg_hostname = None, r2h_token = None, status_page_route = None, udpxy = True,
           maxclients = 5, mcast_rejoin_interval = 0, video_snapshot = False\<rparr>"

definition sx0 :: stream_ext where
  "sx0 = \<lparr>get_time_ms = 5000,
          join_mcast_group = (\<lambda>s. 11),
          epoll_ctl_add_fails = (\<lambda>e s. False),
          rejoin_mcast_group = (\<lambda>s v. 0),
          fcc_session_init = fcc0,
          rtsp_session_init = rtsp0,
          snapshot_init = (\<lambda>s. (0, s)),
          rtsp_parse_server_url = (\<lambda>r u p a. (0, r)),
          rtsp_connect = (\<lambda>r. (0, r)),
          fcc_initialize_and_request = (\<lambda>c. (0, c)),
          fcc_handle_server_response = (\<lambda>c d n p. (0, c)),
          fcc_handle_sync_notification = (\<lambda>c t. (0, c)),
          fcc_handle_unicast_media = (\<lambda>c b. (0, c)),
          fcc_handle_mcast_active = (\<lambda>c b. (0, c)),
          fcc_handle_mcast_transition = (\<lambda>c b. (0, c)),
          rtsp_handle_socket_event = (\<lambda>r e. (0, r)),
          rtsp_handle_udp_rtp_data = (\<lambda>r. (0, r)),
          rtsp_send_keepalive = (\<lambda>r. (0, r)),
          rtp_reorder_timeout_recovery = (\<lambda>c. c),
          snapshot_fallback_to_streaming = (\<lambda>s. s)\<rparr>"

definition ctx_requested :: stream_context where
  "ctx_requested = ctx0\<lparr>fcc := fcc0\<lparr>fcc_state := FCC_STATE_REQUESTED, fcc_sock := 9\<rparr>\<rparr>"

definition ctx_mcast :: stream_context where
  "ctx_mcast = ctx0\<lparr>mcast_sock := 11, fcc := fcc0\<lparr>fcc_state := FCC_STATE_MCAST_ACTIVE\<rparr>\<rparr>"

definition io_exhausted :: recv_io where
  "io_exhausted = \<lparr>alloc_result = None, recv_ret = 1316, recv_eagain = False,
                   recv_bytes = replicate 1316 (CHR ''x''),
                   recv_peer = \<lparr>sin_addr = 0, sin_port = 0\<rparr>\<rparr>"

text \<open>
  The gateway of scenarios S5 and S6: one configured service \<open>ch1\<close>, the token \<open>abc\<close>, a cap
  of five clients which are all taken. The query parser knows the two query strings of
  the examples.
\<close>

definition svc_ch1 :: service where
  "svc_ch1 = \<lparr>url = ''ch1'', service_type = SERVICE_MRTP, fcc_addr = None, rtsp_url = None,
              playseek_param = None, user_agent = None\<rparr>"

definition rx0 :: route_ext where
  "rx0 = \<lparr>http_parse_query_param =
            (\<lambda>q name n. if name = ''r2h-token'' \<and> q = ''r2h-token=abc'' then Some ''abc''
                         else if name = ''other'' \<and> q = ''other=1'' then Some ''1'' else None),
          http_url_decode = (\<lambda>s. Some s),
          service_create_from_udpxy_url = (\<lambda>u. None),
          service_create_with_query_merge = (\<lambda>s u t. None),
          service_clone = (\<lambda>s. Some s),
          status_handle_sse_init = (\<lambda>c. (0, c)),
          status_register_client = (\<lambda>n d. 0),
          m3u_get_transformed_playlist = None\<rparr>"

definition e0 :: env where
  "e0 = \<lparr>env_macros = K2048, env_stream_macros = sm0, env_pool = x0, env_stream = sx0,
         env_route = rx0, env_clock = clk0,
         cfg = cfg0\<lparr>r2h_token := Some ''abc''\<rparr>,
         services = [svc_ch1],
         status_shared = Some \<lparr>total_clients = 5\<rparr>\<rparr>"

definition conn_req :: "string \<Rightarrow> string \<Rightarrow> connection" where
  "conn_req m u = conn0\<lparr>state := CONN_ROUTE, http_req := req0\<lparr>req_method := m, req_url := u\<rparr>\<rparr>"

text \<open>The same gateway with the hostname \<open>gw\<close> configured, and a request for another host.\<close>

definition e_host :: env where
  "e_host = e0\<lparr>cfg := (cfg e0)\<lparr>cfg_hostname := Some ''gw''\<rparr>\<rparr>"

definition conn_other_host :: connection where
  "conn_other_host =
     conn0\<lparr>state := CONN_ROUTE,
           http_req := req0\<lparr>req_url := ''/ch1?other=1'', req_hostname := ''other''\<rparr>\<rparr>"

section \<open>Evaluating doubles\<close>

declare bit_length.simps [simp del]
declare connection_queue_output_loop.simps [simp del]

lemma floor_rat_numeral [simp]:
  "\<lfloor>(numeral a :: rat) / numeral b\<rfloor> = numeral a div numeral b"
  using floor_divide_of_int_eq[of "numeral a" "numeral b", where ?'a = rat] by simp

lemma ceiling_rat_numeral [simp]:
  "\<lceil>(numeral a :: rat) / numeral b\<rceil> = - (- numeral a div numeral b)"
  using floor_divide_of_int_eq[of "- numeral a" "numeral b", where ?'a = rat]
  by (simp add: ceiling_def)

lemma bit_length_numeral [simp]:
  "bit_length 0 = 0"
  "bit_length (numeral n) = Suc (bit_length (numeral n div 2))"
  "bit_length (Suc 0) = Suc 0"
  by (subst bit_length.simps, simp add: bit_length.simps)+

lemmas double_eval =
  round_double_def ilog2_def pow2_def round_half_even_def double_of_size_t_def
  double_add_def double_sub_def double_mul_def double_div_def

text \<open>The constants of connection.c as doubles.\<close>

lemma double_constants:
  "CONN_QUEUE_BURST_FACTOR = 3"
  "CONN_QUEUE_BURST_FACTOR_CONGESTED = 3 / 2"
  "CONN_QUEUE_BURST_FACTOR_DRAIN = 1"
  "CONN_QUEUE_SLOW_FACTOR = 3 / 2"
  "CONN_QUEUE_SLOW_EXIT_LIMIT_RATIO = 3 / 4"
  "CONN_QUEUE_EWMA_ALPHA = 3602879701896397 / 18014398509481984"
  "CONN_QUEUE_SLOW_EXIT_FACTOR = 2476979795053773 / 2251799813685248"
  "CONN_QUEUE_HIGH_UTIL_THRESHOLD = 7656119366529843 / 9007199254740992"
  "CONN_QUEUE_DRAIN_UTIL_THRESHOLD = 4278419646001971 / 4503599627370496"
  "CONN_QUEUE_SLOW_LIMIT_RATIO = 8106479329266893 / 9007199254740992"
  "CONN_QUEUE_SLOW_CLAMP_FACTOR = 3602879701896397 / 4503599627370496"
  by (simp_all add: CONN_QUEUE_BURST_FACTOR_def CONN_QUEUE_BURST_FACTOR_CONGESTED_def
      CONN_QUEUE_BURST_FACTOR_DRAIN_def CONN_QUEUE_SLOW_FACTOR_def
      CONN_QUEUE_SLOW_EXIT_LIMIT_RATIO_def CONN_QUEUE_EWMA_ALPHA_def
      CONN_QUEUE_SLOW_EXIT_FACTOR_def CONN_QUEUE_HIGH_UTIL_THRESHOLD_def
      CONN_QUEUE_DRAIN_UTIL_THRESHOLD_def CONN_QUEUE_SLOW_LIMIT_RATIO_def
      CONN_QUEUE_SLOW_CLAMP_FACTOR_def double_eval)

section \<open>Properties of the backpressure controller\<close>

subsection \<open>The limit calculation\<close>

lemma calc_blocks:
  "connection_calculate_queue_limit k zs c now_ms =
     (connection_compute_limit_bytes k (pool zs) (calc_fair_bytes k zs)
        (if slow_active (calc_conn k zs c now_ms)
            \<and> calc_burst_factor (pool zs) > CONN_QUEUE_SLOW_CLAMP_FACTOR
         then CONN_QUEUE_SLOW_CLAMP_FACTOR else calc_burst_factor (pool zs)),
      calc_conn k zs c now_ms)"
  unfolding connection_calculate_queue_limit_def calc_conn_def calc_exit_def calc_candidate_def
    calc_slow_exit_threshold_def calc_limit_exit_def calc_slow_threshold_def calc_avg_def
    calc_queue_mem_bytes_def calc_burst_factor_def calc_utilization_def calc_fair_bytes_def Let_def
  by (rule refl)

lemma slow_frame_refl: "slow_frame c c"
  by (simp add: slow_frame_def)

lemma slow_frame_if: "slow_frame c y \<Longrightarrow> slow_frame c z \<Longrightarrow> slow_frame c (if b then y else z)"
  by simp

lemma slow_frame_avg: "slow_frame c y \<Longrightarrow> slow_frame c (y\<lparr>queue_avg_bytes := a\<rparr>)"
  unfolding slow_frame_def by (erule ssubst) simp

lemma slow_frame_active: "slow_frame c y \<Longrightarrow> slow_frame c (y\<lparr>slow_active := a\<rparr>)"
  unfolding slow_frame_def by (erule ssubst) simp

lemma slow_frame_since: "slow_frame c y \<Longrightarrow> slow_frame c (y\<lparr>slow_candidate_since := a\<rparr>)"
  unfolding slow_frame_def by (erule ssubst) simp

lemma calc_conn_frame: "slow_frame c (calc_conn k zs c now_ms)"
  unfolding calc_conn_def calc_exit_def calc_candidate_def calc_avg_def
  by (intro slow_frame_if slow_frame_avg slow_frame_active slow_frame_since slow_frame_refl)

lemma slow_frame_fields:
  assumes "slow_frame c c'"
  shows "zc_queue c' = zc_queue c" and "dropped_packets c' = dropped_packets c"
    and "dropped_bytes c' = dropped_bytes c" and "backpressure_events c' = backpressure_events c"
    and "status_index c' = status_index c" and "trace c' = trace c"
    and "state c' = state c"
proof -
  from assms have e:
    "c' = c\<lparr>queue_avg_bytes := queue_avg_bytes c', slow_active := slow_active c',
            slow_candidate_since := slow_candidate_since c'\<rparr>"
    by (simp only: slow_frame_def)
  show "zc_queue c' = zc_queue c" by (subst e) simp
  show "dropped_packets c' = dropped_packets c" by (subst e) simp
  show "dropped_bytes c' = dropped_bytes c" by (subst e) simp
  show "backpressure_events c' = backpressure_events c" by (subst e) simp
  show "status_index c' = status_index c" by (subst e) simp
  show "trace c' = trace c" by (subst e) simp
  show "state c' = state c" by (subst e) simp
qed

lemma calc_cases:
  obtains limit_bytes c1 where
    "connection_calculate_queue_limit k zs c now_ms = (limit_bytes, c1)" and "slow_frame c c1"
proof -
  obtain l c1 where e: "connection_calculate_queue_limit k zs c now_ms = (l, c1)"
    by (cases "connection_calculate_queue_limit k zs c now_ms")
  then have "c1 = calc_conn k zs c now_ms"
    by (simp add: calc_blocks)
  then have "slow_frame c c1"
    by (simp add: calc_conn_frame)
  with e show ?thesis using that by blast
qed

lemma report_queue_fields:
  "zc_queue (connection_report_queue k c) = zc_queue c"
  "dropped_packets (connection_report_queue k c) = dropped_packets c"
  "dropped_bytes (connection_report_queue k c) = dropped_bytes c"
  "backpressure_events (connection_report_queue k c) = backpressure_events c"
  "queue_limit_bytes (connection_report_queue k c) = queue_limit_bytes c"
  by (simp_all add: connection_report_queue_def emit_def Let_def)

lemma epoll_update_fields:
  "zc_queue (connection_epoll_update_events e f ev c) = zc_queue c"
  "queue_limit_bytes (connection_epoll_update_events e f ev c) = queue_limit_bytes c"
  by (simp_all add: connection_epoll_update_events_def emit_def)

text \<open>The two outcomes of \<^verbatim>\<open>connection_queue_zerocopy\<close> on a buffer that holds data.\<close>

lemma queue_zerocopy_reject:
  assumes nz: "data_size buf_ref \<noteq> 0"
    and e: "connection_calculate_queue_limit k zs c now_ms = (l, c1)"
    and over: "projected_bytes k c buf_ref > l"
  shows "connection_queue_zerocopy k x zs c buf_ref now_ms =
      (- 1, connection_report_queue k
              (connection_record_drop k (c1\<lparr>queue_limit_bytes := l\<rparr>) (data_size buf_ref)))"
proof -
  from e have "c1 = calc_conn k zs c now_ms"
    by (simp add: calc_blocks)
  then have fr: "slow_frame c c1"
    by (simp add: calc_conn_frame)
  have "projected_bytes k c1 buf_ref = projected_bytes k c buf_ref"
    by (simp add: projected_bytes_def queued_bytes_def slow_frame_fields[OF fr])
  with over have "projected_bytes k c1 buf_ref > l" by simp
  with nz show ?thesis
    by (simp add: connection_queue_zerocopy_def e Let_def)
qed

lemma queue_zerocopy_accept:
  assumes nz: "data_size buf_ref \<noteq> 0"
    and e: "connection_calculate_queue_limit k zs c now_ms = (l, c1)"
    and fits: "projected_bytes k c buf_ref \<le> l"
  shows "fst (connection_queue_zerocopy k x zs c buf_ref now_ms) = 0"
    and "zc_queue (snd (connection_queue_zerocopy k x zs c buf_ref now_ms)) =
           \<lparr>items = items (zc_queue c) @ [buf_ref], num_queued = num_queued (zc_queue c) + 1\<rparr>"
    and "queue_limit_bytes (snd (connection_queue_zerocopy k x zs c buf_ref now_ms)) = l"
proof -
  from e have "c1 = calc_conn k zs c now_ms"
    by (simp add: calc_blocks)
  then have fr: "slow_frame c c1"
    by (simp add: calc_conn_frame)
  have "projected_bytes k c1 buf_ref = projected_bytes k c buf_ref"
    by (simp add: projected_bytes_def queued_bytes_def slow_frame_fields[OF fr])
  with fits have le: "\<not> projected_bytes k c1 buf_ref > l" by simp
  show "fst (connection_queue_zerocopy k x zs c buf_ref now_ms) = 0"
    using nz le by (simp add: connection_queue_zerocopy_def e Let_def zerocopy_queue_add_def)
  show "zc_queue (snd (connection_queue_zerocopy k x zs c buf_ref now_ms)) =
           \<lparr>items = items (zc_queue c) @ [buf_ref], num_queued = num_queued (zc_queue c) + 1\<rparr>"
    using nz le
    by (simp add: connection_queue_zerocopy_def e Let_def zerocopy_queue_add_def
        report_queue_fields epoll_update_fields slow_frame_fields[OF fr])
  show "queue_limit_bytes (snd (connection_queue_zerocopy k x zs c buf_ref now_ms)) = l"
    using nz le
    by (simp add: connection_queue_zerocopy_def e Let_def zerocopy_queue_add_def
        report_queue_fields epoll_update_fields)
qed

lemma wf_total_le:
  "zc_queue_wf k q \<Longrightarrow> queue_total_bytes q \<le> num_queued q * BUFFER_POOL_BUFFER_SIZE k"
proof -
  have "list_all (\<lambda>b. data_size b \<le> n) bs \<Longrightarrow> sum_list (map data_size bs) \<le> length bs * n"
    for bs :: "buffer_ref list" and n
    by (induction bs) auto
  then show "zc_queue_wf k q \<Longrightarrow> queue_total_bytes q \<le> num_queued q * BUFFER_POOL_BUFFER_SIZE k"
    by (simp add: zc_queue_wf_def queue_total_bytes_def)
qed

subsection \<open>The limit of a connection (C3)\<close>

text \<open>
  Counterexample to C3 as it is worded, at three inputs.

  With the pool capped at 64 buffers of 2048 bytes (the pool of scenario S3), the cap
  \<open>max_buffers \<times> BUFFER_SIZE \<midarrow> reserve\<close> is zero, so the claim leaves the scaled fair share
  \<open>131072 \<times> 3 = 393216\<close> uncapped. The source takes the other branch of its test
  \<^verbatim>\<open>global_cap > reserve\<close> and caps the limit at \<^verbatim>\<open>global_cap\<close>, which is 131072.

  With a cap of \<open>2 ^ 53\<close> buffers the product \<open>max_buffers \<times> BUFFER_SIZE\<close> is \<open>2 ^ 64\<close>, which
  is 0 in \<^verbatim>\<open>size_t\<close>: the source caps the limit at 0 and raises it to the floor of 8192,
  where the claim has 393216.

  Without a cap, a fair share of \<open>2 ^ 53 + 1\<close> bytes and a burst factor of 1 give the limit
  \<open>2 ^ 53\<close>: the conversion of the fair share to a double rounds it.
\<close>

theorem C3_counterexample:
  "(connection_compute_limit_bytes K2048 pool64 131072 3 = 131072
     \<and> spec_limit_bytes K2048 pool64 131072 3 = 393216)
   \<and> (connection_compute_limit_bytes K2048 pool_2_53 131072 3 = 8192
     \<and> spec_limit_bytes K2048 pool_2_53 131072 3 = 393216)
   \<and> (connection_compute_limit_bytes K2048 pool_uncapped 9007199254740993 1 = 9007199254740992
     \<and> spec_limit_bytes K2048 pool_uncapped 9007199254740993 1 = 9007199254740993)"
proof -
  have s3: "size_t_of_double k (double_mul (double_of_size_t 131072) 3) = 393216"
    for k by (simp add: size_t_of_double_def double_eval)
  have s1: "size_t_of_double k (double_mul (double_of_size_t 9007199254740993) 1)
              = 9007199254740992"
    for k by (simp add: size_t_of_double_def double_eval)
  have a: "connection_compute_limit_bytes K2048 pool64 131072 3 = 131072"
    by (simp add: connection_compute_limit_bytes_def s3 K2048_def pool64_def
        CONN_QUEUE_MIN_BUFFERS_def Let_def)
  have a': "spec_limit_bytes K2048 pool64 131072 3 = 393216"
    by (simp add: spec_limit_bytes_def K2048_def pool64_def CONN_QUEUE_MIN_BUFFERS_def Let_def)
  have b: "connection_compute_limit_bytes K2048 pool_2_53 131072 3 = 8192"
    by (simp add: connection_compute_limit_bytes_def s3 K2048_def pool_2_53_def
        CONN_QUEUE_MIN_BUFFERS_def Let_def)
  have b': "spec_limit_bytes K2048 pool_2_53 131072 3 = 393216"
    by (simp add: spec_limit_bytes_def K2048_def pool_2_53_def CONN_QUEUE_MIN_BUFFERS_def Let_def)
  have c: "connection_compute_limit_bytes K2048 pool_uncapped 9007199254740993 1
             = 9007199254740992"
    by (simp add: connection_compute_limit_bytes_def s1 K2048_def pool_uncapped_def Let_def)
  have c': "spec_limit_bytes K2048 pool_uncapped 9007199254740993 1 = 9007199254740993"
    by (simp add: spec_limit_bytes_def K2048_def pool_uncapped_def Let_def)
  from a a' b b' c c' show ?thesis
    by blast
qed

text \<open>
  C3, amended. For every pool, fair share and burst factor, the limit is the product of
  the fair share and the burst factor as the source computes it: the fair share is
  converted to a double, multiplied in double precision and converted back to \<^verbatim>\<open>size_t\<close>.
  When \<open>max_buffers > 0\<close> the limit is capped, the products \<open>max_buffers \<times> BUFFER_SIZE\<close> and
  \<open>CONN_QUEUE_MIN_BUFFERS \<times> BUFFER_SIZE\<close> being taken in \<^verbatim>\<open>size_t\<close> (modulo \<open>2 ^ 64\<close>): by their
  difference when the first exceeds the second, and by the first itself when it does
  not. The result is then raised to \<open>4 \<times> BUFFER_SIZE\<close> (in \<^verbatim>\<open>size_t\<close>) if it is below.
\<close>

theorem C3_limit_bytes_capped:
  "connection_compute_limit_bytes k pl fair_bytes burst_factor =
     max ((BUFFER_POOL_BUFFER_SIZE k * 4) mod 2 ^ 64)
       (if max_buffers pl = 0
        then size_t_of_double k (double_mul (double_of_size_t fair_bytes) burst_factor)
        else if (max_buffers pl * BUFFER_POOL_BUFFER_SIZE k) mod 2 ^ 64
                  > (CONN_QUEUE_MIN_BUFFERS * BUFFER_POOL_BUFFER_SIZE k) mod 2 ^ 64
        then min (size_t_of_double k (double_mul (double_of_size_t fair_bytes) burst_factor))
                 ((max_buffers pl * BUFFER_POOL_BUFFER_SIZE k) mod 2 ^ 64
                    - (CONN_QUEUE_MIN_BUFFERS * BUFFER_POOL_BUFFER_SIZE k) mod 2 ^ 64)
        else min (size_t_of_double k (double_mul (double_of_size_t fair_bytes) burst_factor))
                 ((max_buffers pl * BUFFER_POOL_BUFFER_SIZE k) mod 2 ^ 64))"
  by (simp add: connection_compute_limit_bytes_def Let_def max_def min_def)

subsection \<open>Rejected and accepted enqueues (C1, C2)\<close>

lemma limit_zs68: "fst (connection_calculate_queue_limit K2048 zs68 c now_ms) = 8192"
proof -
  have f: "calc_fair_bytes K2048 zs68 = 139264"
    by (simp add: calc_fair_bytes_def K2048_def zs68_def CONN_QUEUE_MIN_BUFFERS_def)
  have s: "size_t_of_double k (double_mul (double_of_size_t 139264) (3 / 2)) = 208896"
    "size_t_of_double k
       (double_mul (double_of_size_t 139264) (3602879701896397 / 4503599627370496)) = 111411"
    for k by (simp_all add: size_t_of_double_def double_eval)
  have a: "connection_compute_limit_bytes K2048 (pool zs68) 139264 (3 / 2) = 8192"
    by (simp add: connection_compute_limit_bytes_def s K2048_def zs68_def
        CONN_QUEUE_MIN_BUFFERS_def Let_def)
  have b: "connection_compute_limit_bytes K2048 (pool zs68) 139264
             (3602879701896397 / 4503599627370496) = 8192"
    by (simp add: connection_compute_limit_bytes_def s K2048_def zs68_def
        CONN_QUEUE_MIN_BUFFERS_def Let_def)
  have u: "calc_utilization (pool zs68) = 4238682002231055 / 36028797018963968"
    by (simp add: calc_utilization_def zs68_def double_eval)
  have bf: "calc_burst_factor (pool zs68) = 3 / 2"
    by (simp add: calc_burst_factor_def u double_constants) (simp add: zs68_def)
  show ?thesis
    by (simp add: calc_blocks f bf a b double_constants)
qed

lemma limit_zs_busy: "fst (connection_calculate_queue_limit K2048 zs_busy c now_ms) \<le> 131072"
proof -
  have f: "calc_fair_bytes K2048 zs_busy = 131072"
    by (simp add: calc_fair_bytes_def K2048_def zs_busy_def CONN_QUEUE_MIN_BUFFERS_def)
  have bf: "calc_burst_factor (pool zs_busy) = 1"
    by (simp add: calc_burst_factor_def zs_busy_def double_constants)
  have s: "size_t_of_double k (double_mul (double_of_size_t 131072) 1) = 131072"
    "size_t_of_double k
       (double_mul (double_of_size_t 131072) (3602879701896397 / 4503599627370496)) = 104857"
    for k by (simp_all add: size_t_of_double_def double_eval)
  have a: "connection_compute_limit_bytes K2048 (pool zs_busy) 131072 1 = 131072"
    by (simp add: connection_compute_limit_bytes_def s K2048_def zs_busy_def
        CONN_QUEUE_MIN_BUFFERS_def Let_def)
  have b: "connection_compute_limit_bytes K2048 (pool zs_busy) 131072
             (3602879701896397 / 4503599627370496) = 104857"
    by (simp add: connection_compute_limit_bytes_def s K2048_def zs_busy_def
        CONN_QUEUE_MIN_BUFFERS_def Let_def)
  show ?thesis
    by (simp add: calc_blocks f bf a b double_constants)
qed

lemma queued_bytes_conn_q: "n < 1000 \<Longrightarrow> queued_bytes K2048 (conn_q n) = n * 2048"
  by (simp add: queued_bytes_def conn_q_def K2048_def)

text \<open>
  Counterexample to C1 as it is worded, at three inputs. In each the queued bytes plus
  the buffer's \<^verbatim>\<open>data_size\<close> exceed the limit computed for the call.

  A buffer with no data in it. A hundred full buffers were queued while the pool was
  idle; the pool is now under load, so the limit of the connection is at most 64 buffers
  (131072 bytes). The source tests \<^verbatim>\<open>buf_ref->data_size == 0\<close> first and returns 0: the
  call is not rejected, and no counter of the connection changes.

  The buffer \<open>buf_huge\<close> behind two full buffers, with a limit of 8192 bytes. The source
  adds \<open>4096 + (2 ^ 64 - 1)\<close> in \<^verbatim>\<open>size_t\<close>, which gives 4095: the buffer is accepted and
  queued.

  The same buffer behind five full buffers, on a connection that has dropped 10 bytes
  before. The sum is 10239 in \<^verbatim>\<open>size_t\<close> and the buffer is rejected; the 64-bit counter
  \<^verbatim>\<open>dropped_bytes\<close> then holds 9, not \<open>10 + (2 ^ 64 - 1)\<close>.
\<close>

theorem C1_counterexample:
  "(data_size buf_empty = 0
     \<and> queued_bytes K2048 (conn_q 100) + data_size buf_empty
         > fst (connection_calculate_queue_limit K2048 zs_busy (conn_q 100) 1000)
     \<and> connection_queue_zerocopy K2048 x0 zs_busy (conn_q 100) buf_empty 1000 = (0, conn_q 100))
   \<and> (queued_bytes K2048 (conn_q 2) + data_size buf_huge
         > fst (connection_calculate_queue_limit K2048 zs68 (conn_q 2) 1000)
     \<and> fst (connection_queue_zerocopy K2048 x0 zs68 (conn_q 2) buf_huge 1000) = 0
     \<and> items (zc_queue (snd (connection_queue_zerocopy K2048 x0 zs68 (conn_q 2) buf_huge 1000)))
         = [buf_full, buf_full, buf_huge])
   \<and> (queued_bytes K2048 ((conn_q 5)\<lparr>dropped_bytes := 10\<rparr>) + data_size buf_huge
         > fst (connection_calculate_queue_limit K2048 zs68 ((conn_q 5)\<lparr>dropped_bytes := 10\<rparr>) 1000)
     \<and> fst (connection_queue_zerocopy K2048 x0 zs68 ((conn_q 5)\<lparr>dropped_bytes := 10\<rparr>)
              buf_huge 1000) = - 1
     \<and> dropped_bytes (snd (connection_queue_zerocopy K2048 x0 zs68
                              ((conn_q 5)\<lparr>dropped_bytes := 10\<rparr>) buf_huge 1000)) = 9
     \<and> dropped_bytes ((conn_q 5)\<lparr>dropped_bytes := 10\<rparr>) + data_size buf_huge
         = 18446744073709551625)"
proof -
  have one: "data_size buf_empty = 0
     \<and> queued_bytes K2048 (conn_q 100) + data_size buf_empty
         > fst (connection_calculate_queue_limit K2048 zs_busy (conn_q 100) 1000)
     \<and> connection_queue_zerocopy K2048 x0 zs_busy (conn_q 100) buf_empty 1000 = (0, conn_q 100)"
    using limit_zs_busy[of "conn_q 100" 1000]
    by (simp add: queued_bytes_conn_q connection_queue_zerocopy_def buf_empty_def)
  have nz: "data_size buf_huge \<noteq> 0"
    by (simp add: buf_huge_def)
  obtain l2 c2 where e2: "connection_calculate_queue_limit K2048 zs68 (conn_q 2) 1000 = (l2, c2)"
    by (cases "connection_calculate_queue_limit K2048 zs68 (conn_q 2) 1000")
  with limit_zs68[of "conn_q 2" 1000] have l2: "l2 = 8192" by simp
  have fits: "projected_bytes K2048 (conn_q 2) buf_huge \<le> l2"
    by (simp add: l2 projected_bytes_def queued_bytes_conn_q buf_huge_def)
  have two: "queued_bytes K2048 (conn_q 2) + data_size buf_huge
         > fst (connection_calculate_queue_limit K2048 zs68 (conn_q 2) 1000)
     \<and> fst (connection_queue_zerocopy K2048 x0 zs68 (conn_q 2) buf_huge 1000) = 0
     \<and> items (zc_queue (snd (connection_queue_zerocopy K2048 x0 zs68 (conn_q 2) buf_huge 1000)))
         = [buf_full, buf_full, buf_huge]"
    by (simp add: queue_zerocopy_accept[OF nz e2 fits] limit_zs68 queued_bytes_conn_q)
       (simp add: buf_huge_def conn_q_def numeral_2_eq_2)
  let ?c = "(conn_q 5)\<lparr>dropped_bytes := 10\<rparr>"
  have q5: "queued_bytes K2048 ?c = 10240"
    by (simp add: queued_bytes_def conn_q_def K2048_def)
  obtain l5 c5 where e5: "connection_calculate_queue_limit K2048 zs68 ?c 1000 = (l5, c5)"
    and fr: "slow_frame ?c c5"
    by (rule calc_cases)
  with limit_zs68[of ?c 1000] have l5: "l5 = 8192" by simp
  have over: "projected_bytes K2048 ?c buf_huge > l5"
    by (simp add: l5 projected_bytes_def q5 buf_huge_def)
  have three: "queued_bytes K2048 ?c + data_size buf_huge
         > fst (connection_calculate_queue_limit K2048 zs68 ?c 1000)
     \<and> fst (connection_queue_zerocopy K2048 x0 zs68 ?c buf_huge 1000) = - 1
     \<and> dropped_bytes (snd (connection_queue_zerocopy K2048 x0 zs68 ?c buf_huge 1000)) = 9
     \<and> dropped_bytes ?c + data_size buf_huge = 18446744073709551625"
    by (simp add: queue_zerocopy_reject[OF nz e5 over] limit_zs68 q5 report_queue_fields
        connection_record_drop_def slow_frame_fields[OF fr])
       (simp add: buf_huge_def K2048_def)
  show ?thesis
    by (rule conjI[OF one conjI[OF two three]])
qed

text \<open>
  C1, amended. A buffer is handed to \<^verbatim>\<open>connection_queue_zerocopy\<close>.

  If its \<^verbatim>\<open>data_size\<close> is zero the call returns 0 and changes nothing.

  Otherwise, if the projected bytes exceed the limit computed in this call, the call
  returns \<open>-1\<close> and the queue is left as it was; \<^verbatim>\<open>dropped_packets\<close> and
  \<^verbatim>\<open>backpressure_events\<close> are incremented by one and \<^verbatim>\<open>dropped_bytes\<close> by the buffer's
  \<^verbatim>\<open>data_size\<close>, each modulo two to the width of the counter; \<^verbatim>\<open>queue_limit_bytes\<close> holds
  the limit. The projected bytes are the queued bytes (the number of queued buffers times
  the buffer size) plus the buffer's \<^verbatim>\<open>data_size\<close>, computed in \<^verbatim>\<open>size_t\<close> (modulo
  \<open>2 ^ 64\<close>).
\<close>

theorem C1_over_limit_rejected:
  "(data_size buf_ref = 0
      \<longrightarrow> connection_queue_zerocopy k x zs c buf_ref now_ms = (0, c))
   \<and> (data_size buf_ref \<noteq> 0
        \<and> projected_bytes k c buf_ref > fst (connection_calculate_queue_limit k zs c now_ms)
      \<longrightarrow> fst (connection_queue_zerocopy k x zs c buf_ref now_ms) = - 1
        \<and> zc_queue (snd (connection_queue_zerocopy k x zs c buf_ref now_ms)) = zc_queue c
        \<and> dropped_packets (snd (connection_queue_zerocopy k x zs c buf_ref now_ms))
            = (dropped_packets c + 1) mod 2 ^ dropped_packets_bits k
        \<and> dropped_bytes (snd (connection_queue_zerocopy k x zs c buf_ref now_ms))
            = (dropped_bytes c + data_size buf_ref) mod 2 ^ dropped_bytes_bits k
        \<and> backpressure_events (snd (connection_queue_zerocopy k x zs c buf_ref now_ms))
            = (backpressure_events c + 1) mod 2 ^ backpressure_events_bits k
        \<and> queue_limit_bytes (snd (connection_queue_zerocopy k x zs c buf_ref now_ms))
            = fst (connection_calculate_queue_limit k zs c now_ms))"
proof -
  have empty: "data_size buf_ref = 0
      \<longrightarrow> connection_queue_zerocopy k x zs c buf_ref now_ms = (0, c)"
    by (simp add: connection_queue_zerocopy_def)
  have rejected: "data_size buf_ref \<noteq> 0
        \<and> projected_bytes k c buf_ref > fst (connection_calculate_queue_limit k zs c now_ms)
      \<longrightarrow> fst (connection_queue_zerocopy k x zs c buf_ref now_ms) = - 1
        \<and> zc_queue (snd (connection_queue_zerocopy k x zs c buf_ref now_ms)) = zc_queue c
        \<and> dropped_packets (snd (connection_queue_zerocopy k x zs c buf_ref now_ms))
            = (dropped_packets c + 1) mod 2 ^ dropped_packets_bits k
        \<and> dropped_bytes (snd (connection_queue_zerocopy k x zs c buf_ref now_ms))
            = (dropped_bytes c + data_size buf_ref) mod 2 ^ dropped_bytes_bits k
        \<and> backpressure_events (snd (connection_queue_zerocopy k x zs c buf_ref now_ms))
            = (backpressure_events c + 1) mod 2 ^ backpressure_events_bits k
        \<and> queue_limit_bytes (snd (connection_queue_zerocopy k x zs c buf_ref now_ms))
            = fst (connection_calculate_queue_limit k zs c now_ms)"
  proof (rule impI)
    assume h: "data_size buf_ref \<noteq> 0
        \<and> projected_bytes k c buf_ref > fst (connection_calculate_queue_limit k zs c now_ms)"
    then have nz: "data_size buf_ref \<noteq> 0" by simp
    obtain l c1 where e: "connection_calculate_queue_limit k zs c now_ms = (l, c1)"
      and fr: "slow_frame c c1"
      by (rule calc_cases)
    from h e have gt: "projected_bytes k c buf_ref > l" by simp
    show "fst (connection_queue_zerocopy k x zs c buf_ref now_ms) = - 1
        \<and> zc_queue (snd (connection_queue_zerocopy k x zs c buf_ref now_ms)) = zc_queue c
        \<and> dropped_packets (snd (connection_queue_zerocopy k x zs c buf_ref now_ms))
            = (dropped_packets c + 1) mod 2 ^ dropped_packets_bits k
        \<and> dropped_bytes (snd (connection_queue_zerocopy k x zs c buf_ref now_ms))
            = (dropped_bytes c + data_size buf_ref) mod 2 ^ dropped_bytes_bits k
        \<and> backpressure_events (snd (connection_queue_zerocopy k x zs c buf_ref now_ms))
            = (backpressure_events c + 1) mod 2 ^ backpressure_events_bits k
        \<and> queue_limit_bytes (snd (connection_queue_zerocopy k x zs c buf_ref now_ms))
            = fst (connection_calculate_queue_limit k zs c now_ms)"
      by (simp add: queue_zerocopy_reject[OF nz e gt] e report_queue_fields
          connection_record_drop_def slow_frame_fields[OF fr])
  qed
  show ?thesis
    by (rule conjI[OF empty rejected])
qed

theorem C1_witness:
  "data_size buf_rtp \<noteq> 0
   \<and> projected_bytes K2048 (conn_q 4) buf_rtp
       > fst (connection_calculate_queue_limit K2048 zs68 (conn_q 4) 1000)
   \<and> fst (connection_queue_zerocopy K2048 x0 zs68 (conn_q 4) buf_rtp 1000) = - 1
   \<and> zc_queue (snd (connection_queue_zerocopy K2048 x0 zs68 (conn_q 4) buf_rtp 1000))
       = zc_queue (conn_q 4)
   \<and> dropped_packets (snd (connection_queue_zerocopy K2048 x0 zs68 (conn_q 4) buf_rtp 1000)) = 1
   \<and> dropped_bytes (snd (connection_queue_zerocopy K2048 x0 zs68 (conn_q 4) buf_rtp 1000)) = 1316
   \<and> backpressure_events (snd (connection_queue_zerocopy K2048 x0 zs68 (conn_q 4) buf_rtp 1000))
       = 1
   \<and> data_size buf_empty = 0
   \<and> connection_queue_zerocopy K2048 x0 zs68 (conn_q 4) buf_empty 1000 = (0, conn_q 4)"
proof -
  have nz: "data_size buf_rtp \<noteq> 0"
    by (simp add: buf_rtp_def)
  have over: "projected_bytes K2048 (conn_q 4) buf_rtp
                > fst (connection_calculate_queue_limit K2048 zs68 (conn_q 4) 1000)"
    unfolding limit_zs68
    by (simp add: projected_bytes_def queued_bytes_conn_q buf_rtp_def)
  have z: "data_size buf_empty = 0"
    by (simp add: buf_empty_def)
  have c: "dropped_packets (conn_q 4) = 0" "dropped_bytes (conn_q 4) = 0"
    "backpressure_events (conn_q 4) = 0" "data_size buf_rtp = 1316"
    "dropped_packets_bits K2048 = 64" "dropped_bytes_bits K2048 = 64"
    "backpressure_events_bits K2048 = 32"
    by (simp_all add: conn_q_def conn0_def buf_rtp_def K2048_def)
  from C1_over_limit_rejected[of buf_rtp K2048 x0 zs68 "conn_q 4" 1000]
    C1_over_limit_rejected[of buf_empty K2048 x0 zs68 "conn_q 4" 1000] nz over z
  show ?thesis
    by (simp add: c)
qed

text \<open>
  Enqueueing a buffer of at most \<^verbatim>\<open>BUFFER_POOL_BUFFER_SIZE\<close> bytes keeps the invariant of
  a queue of pool buffers, and in such a queue the buffers together hold at most
  \<^verbatim>\<open>BUFFER_POOL_BUFFER_SIZE\<close> bytes each (lemma \<open>wf_total_le\<close>).
\<close>

lemma queue_zerocopy_wf:
  assumes wf: "zc_queue_wf k (zc_queue c)"
    and sz: "data_size buf_ref \<le> BUFFER_POOL_BUFFER_SIZE k"
  shows "zc_queue_wf k (zc_queue (snd (connection_queue_zerocopy k x zs c buf_ref now_ms)))"
proof (cases "data_size buf_ref = 0")
  case True
  with wf show ?thesis
    by (simp add: connection_queue_zerocopy_def)
next
  case nz: False
  obtain l c1 where e: "connection_calculate_queue_limit k zs c now_ms = (l, c1)"
    and fr: "slow_frame c c1"
    by (rule calc_cases)
  show ?thesis
  proof (cases "projected_bytes k c buf_ref > l")
    case True
    with wf show ?thesis
      by (simp add: queue_zerocopy_reject[OF nz e True] report_queue_fields
          connection_record_drop_def slow_frame_fields[OF fr])
  next
    case False
    then have fits: "projected_bytes k c buf_ref \<le> l" by simp
    from wf sz show ?thesis
      by (simp add: queue_zerocopy_accept(2)[OF nz e fits] zc_queue_wf_def)
  qed
qed

text \<open>
  Counterexample to C2 as it is worded, at three calls that return 0 and leave more
  bytes in the queue than \<^verbatim>\<open>queue_limit_bytes\<close>.

  The buffer \<open>buf_huge\<close> behind one full buffer, with a limit of 8192 bytes: the sum
  \<open>2048 + (2 ^ 64 - 1)\<close> is 2047 in \<^verbatim>\<open>size_t\<close>, the buffer is accepted, and the queue holds
  \<open>2 ^ 64 + 2047\<close> bytes.

  The next call on that connection, with a datagram of 1316 bytes: the source counts the
  two queued buffers as 4096 bytes, accepts the datagram, and the queue holds more than
  \<open>2 ^ 64\<close> bytes.

  An empty buffer on a connection with a hundred full buffers queued, whose last call
  was refused under a limit of at most 131072 bytes: the call returns 0 without looking
  at the limit, and the queue holds 204800 bytes.
\<close>

theorem C2_counterexample:
  "(zc_queue_wf K2048 (zc_queue (conn_q 1))
     \<and> fst (connection_queue_zerocopy K2048 x0 zs68 (conn_q 1) buf_huge 1000) = 0
     \<and> queue_limit_bytes conn_after_huge = 8192
     \<and> queue_total_bytes (zc_queue conn_after_huge) = 18446744073709553663)
   \<and> (fst (connection_queue_zerocopy K2048 x0 zs68 conn_after_huge buf_rtp 1001) = 0
     \<and> queue_limit_bytes (snd (connection_queue_zerocopy K2048 x0 zs68 conn_after_huge buf_rtp 1001))
         = 8192
     \<and> queue_total_bytes
         (zc_queue (snd (connection_queue_zerocopy K2048 x0 zs68 conn_after_huge buf_rtp 1001)))
         = 18446744073709554979)
   \<and> (fst (connection_queue_zerocopy K2048 x0 zs_busy (conn_q 100) buf_rtp 1000) = - 1
     \<and> fst (connection_queue_zerocopy K2048 x0 zs_busy conn_after_drop buf_empty 1001) = 0
     \<and> queue_limit_bytes
         (snd (connection_queue_zerocopy K2048 x0 zs_busy conn_after_drop buf_empty 1001))
         \<le> 131072
     \<and> queue_total_bytes
         (zc_queue (snd (connection_queue_zerocopy K2048 x0 zs_busy conn_after_drop buf_empty 1001)))
         = 204800)"
proof -
  have tot: "queue_total_bytes \<lparr>items = replicate n buf_full @ bs, num_queued = m\<rparr>
               = n * 2048 + sum_list (map data_size bs)" for n bs m
    by (induction n) (simp_all add: queue_total_bytes_def buf_full_def)
  have nzh: "data_size buf_huge \<noteq> 0" and nzr: "data_size buf_rtp \<noteq> 0"
    by (simp_all add: buf_huge_def buf_rtp_def)
  have wf: "zc_queue_wf K2048 (zc_queue (conn_q 1))"
    by (simp add: zc_queue_wf_def conn_q_def K2048_def buf_full_def)
  obtain l1 c1 where e1: "connection_calculate_queue_limit K2048 zs68 (conn_q 1) 1000 = (l1, c1)"
    by (cases "connection_calculate_queue_limit K2048 zs68 (conn_q 1) 1000")
  with limit_zs68[of "conn_q 1" 1000] have l1: "l1 = 8192" by simp
  have fits1: "projected_bytes K2048 (conn_q 1) buf_huge \<le> l1"
    by (simp add: l1 projected_bytes_def queued_bytes_conn_q buf_huge_def)
  have q1: "zc_queue conn_after_huge = \<lparr>items = replicate 1 buf_full @ [buf_huge], num_queued = 2\<rparr>"
    unfolding conn_after_huge_def queue_zerocopy_accept(2)[OF nzh e1 fits1]
    by (simp add: conn_q_def)
  have ok1: "fst (connection_queue_zerocopy K2048 x0 zs68 (conn_q 1) buf_huge 1000) = 0"
    by (rule queue_zerocopy_accept(1)[OF nzh e1 fits1])
  have lim1: "queue_limit_bytes conn_after_huge = 8192"
    unfolding conn_after_huge_def queue_zerocopy_accept(3)[OF nzh e1 fits1] by (rule l1)
  have tot1: "queue_total_bytes (zc_queue conn_after_huge) = 18446744073709553663"
    unfolding q1 tot by (simp add: buf_huge_def)
  have one: "zc_queue_wf K2048 (zc_queue (conn_q 1))
     \<and> fst (connection_queue_zerocopy K2048 x0 zs68 (conn_q 1) buf_huge 1000) = 0
     \<and> queue_limit_bytes conn_after_huge = 8192
     \<and> queue_total_bytes (zc_queue conn_after_huge) = 18446744073709553663"
    by (intro conjI wf ok1 lim1 tot1)
  obtain l2 c2 where e2: "connection_calculate_queue_limit K2048 zs68 conn_after_huge 1001 = (l2, c2)"
    by (cases "connection_calculate_queue_limit K2048 zs68 conn_after_huge 1001")
  with limit_zs68[of conn_after_huge 1001] have l2: "l2 = 8192" by simp
  have fits2: "projected_bytes K2048 conn_after_huge buf_rtp \<le> l2"
    by (simp add: l2 projected_bytes_def queued_bytes_def q1 K2048_def buf_rtp_def)
  have ok2: "fst (connection_queue_zerocopy K2048 x0 zs68 conn_after_huge buf_rtp 1001) = 0"
    by (rule queue_zerocopy_accept(1)[OF nzr e2 fits2])
  have lim2: "queue_limit_bytes
                (snd (connection_queue_zerocopy K2048 x0 zs68 conn_after_huge buf_rtp 1001)) = 8192"
    unfolding queue_zerocopy_accept(3)[OF nzr e2 fits2] by (rule l2)
  have tot2: "queue_total_bytes
         (zc_queue (snd (connection_queue_zerocopy K2048 x0 zs68 conn_after_huge buf_rtp 1001)))
         = 18446744073709554979"
    unfolding queue_zerocopy_accept(2)[OF nzr e2 fits2] q1
    by (simp add: queue_total_bytes_def buf_full_def buf_huge_def buf_rtp_def)
  have two: "fst (connection_queue_zerocopy K2048 x0 zs68 conn_after_huge buf_rtp 1001) = 0
     \<and> queue_limit_bytes (snd (connection_queue_zerocopy K2048 x0 zs68 conn_after_huge buf_rtp 1001))
         = 8192
     \<and> queue_total_bytes
         (zc_queue (snd (connection_queue_zerocopy K2048 x0 zs68 conn_after_huge buf_rtp 1001)))
         = 18446744073709554979"
    by (intro conjI ok2 lim2 tot2)
  obtain l3 c3 where e3: "connection_calculate_queue_limit K2048 zs_busy (conn_q 100) 1000 = (l3, c3)"
    and fr3: "slow_frame (conn_q 100) c3"
    by (rule calc_cases)
  with limit_zs_busy[of "conn_q 100" 1000] have l3: "l3 \<le> 131072" by simp
  have over3: "projected_bytes K2048 (conn_q 100) buf_rtp > l3"
    using l3 by (simp add: projected_bytes_def queued_bytes_conn_q buf_rtp_def)
  have rej: "fst (connection_queue_zerocopy K2048 x0 zs_busy (conn_q 100) buf_rtp 1000) = - 1"
    by (simp add: queue_zerocopy_reject[OF nzr e3 over3])
  have ql: "queue_limit_bytes conn_after_drop = l3"
    and qq: "zc_queue conn_after_drop = zc_queue (conn_q 100)"
    unfolding conn_after_drop_def
    by (simp_all add: queue_zerocopy_reject[OF nzr e3 over3] report_queue_fields
        connection_record_drop_def slow_frame_fields[OF fr3])
  have emp: "connection_queue_zerocopy K2048 x0 zs_busy conn_after_drop buf_empty 1001
               = (0, conn_after_drop)"
    by (simp add: connection_queue_zerocopy_def buf_empty_def)
  have t100: "queue_total_bytes (zc_queue (conn_q 100)) = 204800"
    using tot[of 100 "[]" 100] by (simp add: conn_q_def)
  have three: "fst (connection_queue_zerocopy K2048 x0 zs_busy (conn_q 100) buf_rtp 1000) = - 1
     \<and> fst (connection_queue_zerocopy K2048 x0 zs_busy conn_after_drop buf_empty 1001) = 0
     \<and> queue_limit_bytes
         (snd (connection_queue_zerocopy K2048 x0 zs_busy conn_after_drop buf_empty 1001))
         \<le> 131072
     \<and> queue_total_bytes
         (zc_queue (snd (connection_queue_zerocopy K2048 x0 zs_busy conn_after_drop buf_empty 1001)))
         = 204800"
    using rej l3 by (simp add: emp ql qq t100)
  show ?thesis
    by (rule conjI[OF one conjI[OF two three]])
qed

text \<open>
  C2, amended. The buffers in the queue together hold at most \<^verbatim>\<open>BUFFER_POOL_BUFFER_SIZE\<close>
  bytes for each queued buffer, as they do in a queue of pool buffers; the buffer handed
  in holds data; and the queued bytes as the source counts them (the number of queued
  buffers times the buffer size) plus the buffer's \<^verbatim>\<open>data_size\<close> are below \<open>2 ^ 64\<close>. When
  \<^verbatim>\<open>connection_queue_zerocopy\<close> then accepts the buffer (it returns 0), the buffer is the
  new last item of the queue, and the sum of the \<^verbatim>\<open>data_size\<close> of all queued items is at
  most \<^verbatim>\<open>queue_limit_bytes\<close>, which is the limit computed in this call.
\<close>

theorem C2_accepted_within_limit:
  assumes acct: "queue_total_bytes (zc_queue c)
                   \<le> num_queued (zc_queue c) * BUFFER_POOL_BUFFER_SIZE k"
    and nz: "data_size buf_ref \<noteq> 0"
    and fit64: "num_queued (zc_queue c) * BUFFER_POOL_BUFFER_SIZE k + data_size buf_ref < 2 ^ 64"
    and ok: "fst (connection_queue_zerocopy k x zs c buf_ref now_ms) = 0"
  shows "items (zc_queue (snd (connection_queue_zerocopy k x zs c buf_ref now_ms)))
           = items (zc_queue c) @ [buf_ref]
    \<and> queue_limit_bytes (snd (connection_queue_zerocopy k x zs c buf_ref now_ms))
        = fst (connection_calculate_queue_limit k zs c now_ms)
    \<and> queue_total_bytes (zc_queue (snd (connection_queue_zerocopy k x zs c buf_ref now_ms)))
        \<le> queue_limit_bytes (snd (connection_queue_zerocopy k x zs c buf_ref now_ms))"
proof -
  obtain l c1 where e: "connection_calculate_queue_limit k zs c now_ms = (l, c1)"
    and fr: "slow_frame c c1"
    by (rule calc_cases)
  have fits: "projected_bytes k c buf_ref \<le> l"
  proof (rule ccontr)
    assume "\<not> projected_bytes k c buf_ref \<le> l"
    then have "projected_bytes k c buf_ref > l" by simp
    from queue_zerocopy_reject[OF nz e this] ok show False by simp
  qed
  from fit64 have "num_queued (zc_queue c) * BUFFER_POOL_BUFFER_SIZE k < 2 ^ 64"
    by simp
  with fit64 have "projected_bytes k c buf_ref
      = num_queued (zc_queue c) * BUFFER_POOL_BUFFER_SIZE k + data_size buf_ref"
    by (simp add: projected_bytes_def queued_bytes_def)
  with acct have "queue_total_bytes (zc_queue c) + data_size buf_ref \<le> projected_bytes k c buf_ref"
    by simp
  with fits have "queue_total_bytes (zc_queue c) + data_size buf_ref \<le> l" by simp
  then show ?thesis
    by (simp add: queue_zerocopy_accept(2,3)[OF nz e fits] e queue_total_bytes_def)
qed

theorem C2_witness:
  "queue_total_bytes (zc_queue (conn_q 3))
     \<le> num_queued (zc_queue (conn_q 3)) * BUFFER_POOL_BUFFER_SIZE K2048
   \<and> data_size buf_full \<noteq> 0
   \<and> num_queued (zc_queue (conn_q 3)) * BUFFER_POOL_BUFFER_SIZE K2048 + data_size buf_full < 2 ^ 64
   \<and> fst (connection_queue_zerocopy K2048 x0 zs68 (conn_q 3) buf_full 1000) = 0
   \<and> items (zc_queue (snd (connection_queue_zerocopy K2048 x0 zs68 (conn_q 3) buf_full 1000)))
       = replicate 3 buf_full @ [buf_full]
   \<and> queue_limit_bytes (snd (connection_queue_zerocopy K2048 x0 zs68 (conn_q 3) buf_full 1000))
       = 8192
   \<and> queue_total_bytes
       (zc_queue (snd (connection_queue_zerocopy K2048 x0 zs68 (conn_q 3) buf_full 1000)))
       \<le> queue_limit_bytes (snd (connection_queue_zerocopy K2048 x0 zs68 (conn_q 3) buf_full 1000))"
proof -
  have wf: "zc_queue_wf K2048 (zc_queue (conn_q 3))"
    by (simp add: zc_queue_wf_def conn_q_def K2048_def buf_full_def list_all_iff)
  have acct: "queue_total_bytes (zc_queue (conn_q 3))
                \<le> num_queued (zc_queue (conn_q 3)) * BUFFER_POOL_BUFFER_SIZE K2048"
    by (rule wf_total_le[OF wf])
  have nz: "data_size buf_full \<noteq> 0"
    by (simp add: buf_full_def)
  obtain l c1 where e: "connection_calculate_queue_limit K2048 zs68 (conn_q 3) 1000 = (l, c1)"
    by (cases "connection_calculate_queue_limit K2048 zs68 (conn_q 3) 1000")
  with limit_zs68[of "conn_q 3" 1000] have l: "l = 8192" by simp
  have fits: "projected_bytes K2048 (conn_q 3) buf_full \<le> l"
    by (simp add: l projected_bytes_def queued_bytes_conn_q buf_full_def)
  have ok: "fst (connection_queue_zerocopy K2048 x0 zs68 (conn_q 3) buf_full 1000) = 0"
    by (rule queue_zerocopy_accept(1)[OF nz e fits])
  have fit64: "num_queued (zc_queue (conn_q 3)) * BUFFER_POOL_BUFFER_SIZE K2048
                 + data_size buf_full < 2 ^ 64"
    by (simp add: conn_q_def K2048_def buf_full_def)
  have i: "items (zc_queue (conn_q 3)) = replicate 3 buf_full"
    by (simp add: conn_q_def)
  from C2_accepted_within_limit[OF acct nz fit64 ok] acct nz fit64 ok show ?thesis
    by (simp add: limit_zs68 i)
qed

section \<open>Properties of connection\_queue\_output (C10)\<close>













section \<open>Properties of the stream context\<close>

subsection \<open>Pool exhaustion on receive (C7)\<close>

text \<open>
  C7. A readable event arrives on the FCC socket, or on the multicast socket (a socket of
  the context is a positive descriptor, and the two sockets are different descriptors),
  and \<^verbatim>\<open>buffer_pool_alloc()\<close> returns nothing. Then \<^verbatim>\<open>stream_handle_fd_event\<close> returns 0, so
  the connection is not closed; its only receive is one into the throwaway buffer of
  \<^verbatim>\<open>BUFFER_POOL_BUFFER_SIZE\<close> bytes on that socket; and the context is left as it was
  except that \<^verbatim>\<open>last_fcc_data_time\<close>, respectively \<^verbatim>\<open>last_mcast_data_time\<close>, is the
  current time.
\<close>

theorem C7_pool_exhausted_drop:
  assumes "alloc_result io = None"
  shows "(fcc_sock (fcc ctx) > 0 \<and> f = fcc_sock (fcc ctx) \<longrightarrow>
            stream_handle_fd_event k sm sx io ctx f events now =
              (0, ctx\<lparr>last_fcc_data_time := now,
                      ctx_trace := ctx_trace ctx @ [Recvfrom_dummy f (BUFFER_POOL_BUFFER_SIZE k)]\<rparr>))
       \<and> (mcast_sock ctx > 0 \<and> f = mcast_sock ctx \<and> fcc_sock (fcc ctx) \<noteq> mcast_sock ctx \<longrightarrow>
            stream_handle_fd_event k sm sx io ctx f events now =
              (0, ctx\<lparr>last_mcast_data_time := now,
                      ctx_trace := ctx_trace ctx @ [Recv_dummy f (BUFFER_POOL_BUFFER_SIZE k)]\<rparr>))"
  using assms
  by (simp add: stream_handle_fd_event_def handle_fcc_event_def handle_mcast_event_def
      ctx_emit_def)

theorem C7_witness:
  "alloc_result io_exhausted = None
   \<and> fcc_sock (fcc ctx_requested) > 0
   \<and> stream_handle_fd_event K2048 sm0 sx0 io_exhausted ctx_requested 9 1 7000 =
       (0, ctx_requested\<lparr>last_fcc_data_time := 7000,
                          ctx_trace := [Recvfrom_dummy 9 2048]\<rparr>)
   \<and> mcast_sock ctx_mcast > 0 \<and> fcc_sock (fcc ctx_mcast) \<noteq> mcast_sock ctx_mcast
   \<and> stream_handle_fd_event K2048 sm0 sx0 io_exhausted ctx_mcast 11 1 7000 =
       (0, ctx_mcast\<lparr>last_mcast_data_time := 7000,
                      ctx_trace := [Recv_dummy 11 2048]\<rparr>)"
proof -
  have a: "alloc_result io_exhausted = None"
    by (simp add: io_exhausted_def)
  have f: "fcc_sock (fcc ctx_requested) = 9" "ctx_trace ctx_requested = []"
    by (simp_all add: ctx_requested_def ctx0_def fcc0_def)
  have m: "mcast_sock ctx_mcast = 11" "fcc_sock (fcc ctx_mcast) = 0" "ctx_trace ctx_mcast = []"
    by (simp_all add: ctx_mcast_def ctx0_def fcc0_def)
  have b: "BUFFER_POOL_BUFFER_SIZE K2048 = 2048"
    by (simp add: K2048_def)
  from C7_pool_exhausted_drop[OF a, of ctx_requested 9 K2048 sm0 sx0 1 7000]
    C7_pool_exhausted_drop[OF a, of ctx_mcast 11 K2048 sm0 sx0 1 7000]
  show ?thesis
    by (simp add: a f m b)
qed

subsection \<open>The FCC signalling timeout (C8)\<close>





text \<open>
  When no collaborator runs in the rest of the tick (no RTSP keepalive is due, the reorder
  buffer is not waiting, no snapshot is pending), the rest leaves the FCC session and the
  multicast socket as the transition set them.
\<close>

lemma tick_tail_quiet:
  assumes "rtsp_state (rtsp ctx) \<noteq> RTSP_STATE_PLAYING" and "\<not> reorder_waiting ctx"
    and "\<not> enabled (snapshot ctx)"
  shows "fcc (tick_tail sm sx ctx now) = fcc ctx"
    and "mcast_sock (tick_tail sm sx ctx now) = mcast_sock ctx"
  using assms
  by (simp_all add: tick_tail_def tick_rtsp_keepalive_def tick_reorder_def tick_snapshot_def
      tick_bandwidth_def ctx_emit_def Let_def)


section \<open>Properties of routing\<close>

declare string_of_nat.simps [simp del]

subsection \<open>From the checks to the media service\<close>

lemma not_reserved:
  "\<not> reserved_path (cfg e) service_path path_len \<Longrightarrow>
     route_reserved e zs c service_path query_start path_len
       = route_service e zs c service_path query_start path_len"
  unfolding reserved_path_def route_reserved_def Let_def
  by (simp only: de_Morgan_disj if_False simp_thms split: if_splits)

lemma route_passes_checks:
  assumes "passes_checks e c"
  shows "connection_route_and_start e zs c =
           route_reserved e zs c (url_service_path (req_url (http_req c)))
             (url_query_start (req_url (http_req c))) (url_path_len (req_url (http_req c)))"
  using assms
  unfolding connection_route_and_start_def passes_checks_def url_service_path_def
    url_query_start_def url_path_len_def Let_def
  by (simp only: simp_thms if_False)

lemma route_lookup:
  assumes "lookup_service e (req_url (http_req c)) decoded_path = Some (svc, owned)"
    and "http_url_decode (env_route e) (take path_len service_path) = Some decoded_path"
    and "path_len < HTTP_URL_BUFFER_SIZE"
  shows "route_service e zs c service_path query_start path_len
           = route_media e zs c svc owned decoded_path service_path query_start"
  using assms unfolding route_service_def lookup_service_def
  by (auto split: option.splits if_splits)

lemma route_resolved:
  assumes "resolved_service e c = Some (svc, owned, decoded_path)"
  shows "connection_route_and_start e zs c
           = route_media e zs c svc owned decoded_path (url_service_path (req_url (http_req c)))
               (url_query_start (req_url (http_req c)))"
proof -
  let ?u = "req_url (http_req c)"
  from assms have ok: "passes_checks e c"
    "\<not> reserved_path (cfg e) (url_service_path ?u) (url_path_len ?u)"
    "url_path_len ?u < HTTP_URL_BUFFER_SIZE"
    unfolding resolved_service_def by (simp_all split: if_splits)
  from assms ok have
    dec: "http_url_decode (env_route e) (take (url_path_len ?u) (url_service_path ?u))
            = Some decoded_path"
    and lk: "lookup_service e ?u decoded_path = Some (svc, owned)"
    unfolding resolved_service_def by (auto split: option.splits)
  show ?thesis
    by (simp only: route_passes_checks[OF ok(1)] not_reserved[OF ok(2)]
        route_lookup[OF lk dec ok(3)])
qed


lemma route_media_head:
  assumes "strcasecmp_eq (req_method (http_req c)) ''HEAD''"
  shows "route_media e zs c svc owned decoded_path service_path query_start =
     Some (Inr (0,
       c\<lparr>trace := trace c @ Send_http_headers STATUS_200 CONTENT_MP2T None
                    # Epoll_ctl_mod (epfd c) (fd c)
                        [EPOLLIN, EPOLLOUT, EPOLLRDHUP, EPOLLHUP, EPOLLERR]
                    # (if owned then [Service_free svc] else []),
         state := CONN_CLOSING\<rparr>, zs))"
  using assms
  by (simp add: route_media_def send_http_headers_def connection_epoll_update_events_def
      service_free_def emit_def Let_def)

lemma get_is_not_head: "\<not> strcasecmp_eq ''GET'' ''HEAD''"
  by (simp add: strcasecmp_eq_def c_tolower_def)

subsection \<open>HEAD on a media path (C4, C9)\<close>

text \<open>
  C4. A HEAD request (the method is compared without regard to letter case) resolves to
  a media service. Then routing returns 0 and leaves the connection as it was except for
  two things: the calls it has made, which are \<^verbatim>\<open>send_http_headers\<close> with status 200,
  content type \<^verbatim>\<open>video/mp2t\<close> and no extra headers, the epoll update, and
  \<^verbatim>\<open>service_free\<close> of the service when the connection owns it; and the state, which is
  \<^verbatim>\<open>CONN_CLOSING\<close>. No body is queued, and the stream context is not initialised: it is
  unchanged, so no upstream socket was opened.
\<close>

theorem C4_head_on_media_path:
  assumes res: "resolved_service e c = Some (svc, owned, decoded_path)"
    and head: "strcasecmp_eq (req_method (http_req c)) ''HEAD''"
  shows "connection_route_and_start e zs c =
     Some (Inr (0,
       c\<lparr>trace := trace c @ Send_http_headers STATUS_200 CONTENT_MP2T None
                    # Epoll_ctl_mod (epfd c) (fd c)
                        [EPOLLIN, EPOLLOUT, EPOLLRDHUP, EPOLLHUP, EPOLLERR]
                    # (if owned then [Service_free svc] else []),
         state := CONN_CLOSING\<rparr>, zs))"
  by (simp only: route_resolved[OF res] route_media_head[OF head])

lemma resolved_ch1:
  "resolved_service e0 (conn_req m ''/ch1?r2h-token=abc'') = Some (svc_ch1, True, ''ch1'')"
proof -
  have u: "url_service_path ''/ch1?r2h-token=abc'' = ''ch1?r2h-token=abc''"
    "url_query_start ''/ch1?r2h-token=abc'' = Some 3"
    "url_path_len ''/ch1?r2h-token=abc'' = 3"
    by (simp_all add: url_service_path_def url_query_start_def url_path_len_def)
  have r: "req_url (http_req (conn_req m ''/ch1?r2h-token=abc'')) = ''/ch1?r2h-token=abc''"
    by (simp add: conn_req_def)
  have p: "passes_checks e0 (conn_req m ''/ch1?r2h-token=abc'')"
    by (simp add: passes_checks_def r u host_rejected_def token_rejected_def e0_def cfg0_def
        rx0_def)
  have n: "\<not> reserved_path (cfg e0) ''ch1?r2h-token=abc'' 3"
    by (simp add: reserved_path_def e0_def cfg0_def strncmp_eq_def HTTP_URL_BUFFER_SIZE_def)
  have d: "http_url_decode (env_route e0) ''ch1'' = Some ''ch1''"
    by (simp add: e0_def rx0_def)
  have l: "lookup_service e0 ''/ch1?r2h-token=abc'' ''ch1'' = Some (svc_ch1, True)"
    by (simp add: lookup_service_def e0_def rx0_def svc_ch1_def)
  show ?thesis
    by (simp add: resolved_service_def r u p n d l HTTP_URL_BUFFER_SIZE_def)
qed

theorem C4_witness:
  "resolved_service e0 (conn_req ''HEAD'' ''/ch1?r2h-token=abc'') = Some (svc_ch1, True, ''ch1'')
   \<and> strcasecmp_eq (req_method (http_req (conn_req ''HEAD'' ''/ch1?r2h-token=abc''))) ''HEAD''
   \<and> connection_route_and_start e0 zs68 (conn_req ''HEAD'' ''/ch1?r2h-token=abc'') =
       Some (Inr (0,
         (conn_req ''HEAD'' ''/ch1?r2h-token=abc'')
           \<lparr>trace := [Send_http_headers STATUS_200 CONTENT_MP2T None,
                       Epoll_ctl_mod 3 7 [EPOLLIN, EPOLLOUT, EPOLLRDHUP, EPOLLHUP, EPOLLERR],
                       Service_free svc_ch1],
             state := CONN_CLOSING\<rparr>, zs68))"
proof -
  have head:
    "strcasecmp_eq (req_method (http_req (conn_req ''HEAD'' ''/ch1?r2h-token=abc''))) ''HEAD''"
    by (simp add: conn_req_def strcasecmp_eq_def)
  have f: "trace (conn_req ''HEAD'' ''/ch1?r2h-token=abc'') = []"
    "epfd (conn_req ''HEAD'' ''/ch1?r2h-token=abc'') = 3"
    "fd (conn_req ''HEAD'' ''/ch1?r2h-token=abc'') = 7"
    by (simp_all add: conn_req_def conn0_def)
  from C4_head_on_media_path[OF resolved_ch1 head, of zs68] resolved_ch1[of "''HEAD''"] head
  show ?thesis
    by (simp add: f)
qed

text \<open>
  Resolving a request does not look at the client count or at the client cap.
\<close>

lemma resolved_capacity:
  "resolved_service (e\<lparr>status_shared := sh, cfg := (cfg e)\<lparr>maxclients := m\<rparr>\<rparr>) c
     = resolved_service e c"
  by (simp add: resolved_service_def passes_checks_def host_rejected_def token_rejected_def
      reserved_path_def lookup_service_def
      cong: if_cong option.case_cong)

text \<open>
  C9. A HEAD request resolves to a media service. Then the outcome of routing is the same
  for every client count (also when \<^verbatim>\<open>status_shared\<close> is absent) and every client cap, so
  no capacity check bears on it: routing returns 0 with the connection in
  \<^verbatim>\<open>CONN_CLOSING\<close>, and \<^verbatim>\<open>http_send_503\<close> is not among the calls it has made.
\<close>

theorem C9_head_skips_capacity_check:
  assumes res: "resolved_service e c = Some (svc, owned, decoded_path)"
    and head: "strcasecmp_eq (req_method (http_req c)) ''HEAD''"
  shows "connection_route_and_start (e\<lparr>status_shared := sh, cfg := (cfg e)\<lparr>maxclients := m\<rparr>\<rparr>) zs c
           = connection_route_and_start e zs c
    \<and> (\<exists>c'. connection_route_and_start e zs c = Some (Inr (0, c', zs))
           \<and> state c' = CONN_CLOSING
           \<and> Http_send_503 \<notin> set (drop (length (trace c)) (trace c')))"
proof -
  have res': "resolved_service (e\<lparr>status_shared := sh, cfg := (cfg e)\<lparr>maxclients := m\<rparr>\<rparr>) c
                = Some (svc, owned, decoded_path)"
    by (simp only: resolved_capacity res)
  have same:
    "connection_route_and_start (e\<lparr>status_shared := sh, cfg := (cfg e)\<lparr>maxclients := m\<rparr>\<rparr>) zs c
       = connection_route_and_start e zs c"
    by (simp only: route_resolved[OF res] route_resolved[OF res'] route_media_head[OF head])
  let ?c' = "c\<lparr>trace := trace c @ Send_http_headers STATUS_200 CONTENT_MP2T None
                    # Epoll_ctl_mod (epfd c) (fd c)
                        [EPOLLIN, EPOLLOUT, EPOLLRDHUP, EPOLLHUP, EPOLLERR]
                    # (if owned then [Service_free svc] else []),
               state := CONN_CLOSING\<rparr>"
  have run: "connection_route_and_start e zs c = Some (Inr (0, ?c', zs))"
    by (simp only: route_resolved[OF res] route_media_head[OF head])
  have "state ?c' = CONN_CLOSING" and "Http_send_503 \<notin> set (drop (length (trace c)) (trace ?c'))"
    by simp_all
  with run same show ?thesis
    by blast
qed

theorem C9_witness:
  "resolved_service e0 (conn_req ''head'' ''/ch1?r2h-token=abc'') = Some (svc_ch1, True, ''ch1'')
   \<and> strcasecmp_eq (req_method (http_req (conn_req ''head'' ''/ch1?r2h-token=abc''))) ''HEAD''
   \<and> status_shared e0 = Some \<lparr>total_clients = 5\<rparr> \<and> maxclients (cfg e0) = 5
   \<and> connection_route_and_start (e0\<lparr>status_shared := None, cfg := (cfg e0)\<lparr>maxclients := 100\<rparr>\<rparr>)
        zs68 (conn_req ''head'' ''/ch1?r2h-token=abc'')
       = connection_route_and_start e0 zs68 (conn_req ''head'' ''/ch1?r2h-token=abc'')
   \<and> (\<exists>c'. connection_route_and_start e0 zs68 (conn_req ''head'' ''/ch1?r2h-token=abc'')
              = Some (Inr (0, c', zs68))
           \<and> state c' = CONN_CLOSING
           \<and> Http_send_503
               \<notin> set (drop (length (trace (conn_req ''head'' ''/ch1?r2h-token=abc''))) (trace c')))"
proof -
  have head:
    "strcasecmp_eq (req_method (http_req (conn_req ''head'' ''/ch1?r2h-token=abc''))) ''HEAD''"
    by (simp add: conn_req_def strcasecmp_eq_def c_tolower_def)
  have cap: "status_shared e0 = Some \<lparr>total_clients = 5\<rparr>" "maxclients (cfg e0) = 5"
    by (simp_all add: e0_def cfg0_def)
  from C9_head_skips_capacity_check[OF resolved_ch1 head, where sh = None and m = 100 and zs = zs68]
    resolved_ch1[of "''head''"] head cap
  show ?thesis
    by blast
qed

subsection \<open>The client cap (C6)\<close>

lemma route_media_over_capacity:
  assumes nh: "\<not> strcasecmp_eq (req_method (http_req c)) ''HEAD''"
    and sh: "status_shared e = Some s"
    and full: "maxclients (cfg e) \<le> total_clients s"
  shows "route_media e zs c svc owned decoded_path service_path query_start =
     Some (Inr (0,
       c\<lparr>trace := trace c @ Http_send_503
                    # (if owned
                       then [Service_free
                               (if req_user_agent (http_req c) \<noteq> []
                                then svc\<lparr>user_agent := Some (req_user_agent (http_req c))\<rparr>
                                else svc)]
                       else []),
         state := CONN_CLOSING\<rparr>, zs))"
  using nh sh full
  by (simp add: route_media_def http_send_503_def service_free_def emit_def Let_def)

text \<open>
  C6. A GET request resolves to a media service, and the number of active clients, which
  \<^verbatim>\<open>status_shared\<close> holds, is at or above \<^verbatim>\<open>maxclients\<close> (so in particular when it exceeds
  it). Then routing returns 0 after these calls and no other: \<^verbatim>\<open>http_send_503\<close>, and
  \<^verbatim>\<open>service_free\<close> of the service (with the request's user agent, if there is one, set in
  it) when the connection owns it. Streaming is not initialised: the stream context, the
  streaming flag, the service of the connection, its buffer class and its send queue
  are as they were, and the pool state is unchanged.
\<close>

theorem C6_over_capacity_503:
  assumes res: "resolved_service e c = Some (svc, owned, decoded_path)"
    and get: "req_method (http_req c) = ''GET''"
    and sh: "status_shared e = Some s"
    and full: "maxclients (cfg e) \<le> total_clients s"
  shows "\<exists>c'. connection_route_and_start e zs c = Some (Inr (0, c', zs))
    \<and> trace c' = trace c @ Http_send_503
                     # (if owned
                        then [Service_free
                                (if req_user_agent (http_req c) \<noteq> []
                                 then svc\<lparr>user_agent := Some (req_user_agent (http_req c))\<rparr>
                                 else svc)]
                        else [])
    \<and> stream c' = stream c \<and> streaming c' = streaming c
    \<and> conn_service c' = conn_service c \<and> buffer_class c' = buffer_class c
    \<and> zc_queue c' = zc_queue c"
proof -
  have nh: "\<not> strcasecmp_eq (req_method (http_req c)) ''HEAD''"
    by (simp only: get get_is_not_head not_False_eq_True)
  let ?c' = "c\<lparr>trace := trace c @ Http_send_503
                    # (if owned
                       then [Service_free
                               (if req_user_agent (http_req c) \<noteq> []
                                then svc\<lparr>user_agent := Some (req_user_agent (http_req c))\<rparr>
                                else svc)]
                       else []),
               state := CONN_CLOSING\<rparr>"
  have "connection_route_and_start e zs c = Some (Inr (0, ?c', zs))"
    by (simp only: route_resolved[OF res] route_media_over_capacity[OF nh sh full])
  moreover have "trace ?c' = trace c @ Http_send_503
                     # (if owned
                        then [Service_free
                                (if req_user_agent (http_req c) \<noteq> []
                                 then svc\<lparr>user_agent := Some (req_user_agent (http_req c))\<rparr>
                                 else svc)]
                        else [])"
    and "stream ?c' = stream c" and "streaming ?c' = streaming c"
    and "conn_service ?c' = conn_service c" and "buffer_class ?c' = buffer_class c"
    and "zc_queue ?c' = zc_queue c"
    by simp_all
  ultimately show ?thesis
    by blast
qed

theorem C6_witness:
  "resolved_service e0 (conn_req ''GET'' ''/ch1?r2h-token=abc'') = Some (svc_ch1, True, ''ch1'')
   \<and> req_method (http_req (conn_req ''GET'' ''/ch1?r2h-token=abc'')) = ''GET''
   \<and> status_shared e0 = Some \<lparr>total_clients = 5\<rparr>
   \<and> maxclients (cfg e0) \<le> total_clients \<lparr>total_clients = 5\<rparr>
   \<and> (\<exists>c'. connection_route_and_start e0 zs68 (conn_req ''GET'' ''/ch1?r2h-token=abc'')
              = Some (Inr (0, c', zs68))
          \<and> trace c' = [Http_send_503, Service_free svc_ch1]
          \<and> stream c' = stream (conn_req ''GET'' ''/ch1?r2h-token=abc'')
          \<and> streaming c' = streaming (conn_req ''GET'' ''/ch1?r2h-token=abc'')
          \<and> conn_service c' = conn_service (conn_req ''GET'' ''/ch1?r2h-token=abc'')
          \<and> buffer_class c' = buffer_class (conn_req ''GET'' ''/ch1?r2h-token=abc'')
          \<and> zc_queue c' = zc_queue (conn_req ''GET'' ''/ch1?r2h-token=abc''))"
proof -
  have get: "req_method (http_req (conn_req ''GET'' ''/ch1?r2h-token=abc'')) = ''GET''"
    by (simp add: conn_req_def)
  have sh: "status_shared e0 = Some \<lparr>total_clients = 5\<rparr>"
    by (simp add: e0_def)
  have full: "maxclients (cfg e0) \<le> total_clients \<lparr>total_clients = 5\<rparr>"
    by (simp add: e0_def cfg0_def)
  have f: "trace (conn_req ''GET'' ''/ch1?r2h-token=abc'') = []"
    "req_user_agent (http_req (conn_req ''GET'' ''/ch1?r2h-token=abc'')) = []"
    by (simp_all add: conn_req_def conn0_def req0_def)
  from C6_over_capacity_503[OF resolved_ch1 get sh full, of zs68]
    resolved_ch1[of "''GET''"] get sh full
  show ?thesis
    by (simp add: f)
qed

subsection \<open>The auth token (C5)\<close>

lemma media_no_token:
  "route_media (e\<lparr>cfg := (cfg e)\<lparr>r2h_token := None\<rparr>\<rparr>) zs c svc owned dp sp qs
     = route_media e zs c svc owned dp sp qs"
  by (simp add: route_media_def snapshot_request_def
      cong: if_cong option.case_cong sum.case_cong prod.case_cong)

lemma service_no_token:
  "route_service (e\<lparr>cfg := (cfg e)\<lparr>r2h_token := None\<rparr>\<rparr>) zs c sp qs pl
     = route_service e zs c sp qs pl"
  by (simp add: route_service_def media_no_token cong: if_cong option.case_cong)

lemma playlist_no_token:
  "handle_playlist_request (e\<lparr>cfg := (cfg e)\<lparr>r2h_token := None\<rparr>\<rparr>) zs c
     = handle_playlist_request e zs c"
  by (simp add: handle_playlist_request_def Let_def cong: option.case_cong)

lemma reserved_no_token:
  "route_reserved (e\<lparr>cfg := (cfg e)\<lparr>r2h_token := None\<rparr>\<rparr>) zs c sp qs pl
     = route_reserved e zs c sp qs pl"
  by (simp add: route_reserved_def service_no_token playlist_no_token Let_def
      cong: if_cong option.case_cong prod.case_cong)

text \<open>
  Counterexample to C5 as it is worded. The gateway has the hostname \<open>gw\<close> and the token
  \<open>abc\<close> configured; the request \<open>GET /ch1?other=1\<close> carries no token and names another
  host. The Host check comes before the token check, so routing answers 400, not 401.
\<close>

theorem C5_counterexample:
  "r2h_token (cfg e_host) = Some ''abc''
   \<and> \<not> token_matches (env_route e_host) ''abc'' (req_url (http_req conn_other_host))
   \<and> connection_route_and_start e_host zs68 conn_other_host
       = Some (Inr (0, http_send_400 conn_other_host, zs68))
   \<and> trace (http_send_400 conn_other_host) = [Http_send_400]"
proof -
  have h: "host_rejected (cfg e_host) (http_req conn_other_host)"
    by (simp add: host_rejected_def host_without_port_def strcasecmp_eq_def c_tolower_def
        e_host_def e0_def cfg0_def conn_other_host_def req0_def)
  have u: "take 1 (req_url (http_req conn_other_host)) = ''/''"
    by (simp add: conn_other_host_def)
  have r: "connection_route_and_start e_host zs68 conn_other_host
             = Some (Inr (0, http_send_400 conn_other_host, zs68))"
    using h u unfolding connection_route_and_start_def Let_def
    by (simp only: simp_thms if_True if_False)
  show ?thesis
    by (simp add: r)
       (simp add: token_matches_def http_send_400_def emit_def e_host_def e0_def cfg0_def
          rx0_def conn_other_host_def conn0_def)
qed

text \<open>
  C5, amended. A token is configured and not empty, and the request gets to the token
  check: its URL begins with a slash and it passes the Host check (a request that does
  not is answered 400 before the token is looked at). If the query string does not carry
  an \<^verbatim>\<open>r2h-token\<close> parameter whose URL-decoded value equals the token, routing calls
  \<^verbatim>\<open>http_send_401\<close> and returns 0 with the connection closing. If it does, the request
  passes the check: routing does what it does when no token is configured.
\<close>

theorem C5_token_check:
  assumes tok: "r2h_token (cfg e) = Some tok" and ne: "tok \<noteq> []"
    and slash: "take 1 (req_url (http_req c)) = ''/''"
    and host: "\<not> host_rejected (cfg e) (http_req c)"
  shows "(\<not> token_matches (env_route e) tok (req_url (http_req c)) \<longrightarrow>
            connection_route_and_start e zs c = Some (Inr (0, http_send_401 c, zs))
            \<and> trace (http_send_401 c) = trace c @ [Http_send_401]
            \<and> state (http_send_401 c) = CONN_CLOSING)
       \<and> (token_matches (env_route e) tok (req_url (http_req c)) \<longrightarrow>
            connection_route_and_start e zs c
              = connection_route_and_start (e\<lparr>cfg := (cfg e)\<lparr>r2h_token := None\<rparr>\<rparr>) zs c)"
proof -
  let ?u = "req_url (http_req c)"
  let ?e' = "e\<lparr>cfg := (cfg e)\<lparr>r2h_token := None\<rparr>\<rparr>"
  have rej: "token_rejected (env_route e) (cfg e) (url_service_path ?u) (url_query_start ?u)
               = (\<not> token_matches (env_route e) tok ?u)"
    using tok ne
    by (simp add: token_rejected_def token_matches_def url_service_path_def
        url_query_start_def split: option.splits)
  have no: "connection_route_and_start e zs c = Some (Inr (0, http_send_401 c, zs))"
    if "\<not> token_matches (env_route e) tok ?u"
    using that slash host rej
    unfolding connection_route_and_start_def url_service_path_def url_query_start_def Let_def
    by (simp only: simp_thms if_True if_False)
  have p: "passes_checks e c" if "token_matches (env_route e) tok ?u"
    using that slash host rej by (simp add: passes_checks_def)
  have p': "passes_checks ?e' c"
    using slash host by (simp add: passes_checks_def host_rejected_def token_rejected_def)
  have yes: "connection_route_and_start e zs c = connection_route_and_start ?e' zs c"
    if "token_matches (env_route e) tok ?u"
    by (simp only: route_passes_checks[OF p[OF that]] route_passes_checks[OF p']
        reserved_no_token)
  have "trace (http_send_401 c) = trace c @ [Http_send_401]"
    and "state (http_send_401 c) = CONN_CLOSING"
    by (simp_all add: http_send_401_def emit_def)
  with no yes show ?thesis
    by blast
qed

theorem C5_witness:
  "r2h_token (cfg e0) = Some ''abc'' \<and> ''abc'' \<noteq> []
   \<and> take 1 (req_url (http_req (conn_req ''GET'' ''/ch1?other=1''))) = ''/''
   \<and> \<not> host_rejected (cfg e0) (http_req (conn_req ''GET'' ''/ch1?other=1''))
   \<and> \<not> token_matches (env_route e0) ''abc'' ''/ch1?other=1''
   \<and> connection_route_and_start e0 zs68 (conn_req ''GET'' ''/ch1?other=1'')
       = Some (Inr (0, http_send_401 (conn_req ''GET'' ''/ch1?other=1''), zs68))
   \<and> trace (http_send_401 (conn_req ''GET'' ''/ch1?other=1'')) = [Http_send_401]
   \<and> state (http_send_401 (conn_req ''GET'' ''/ch1?other=1'')) = CONN_CLOSING
   \<and> take 1 (req_url (http_req (conn_req ''GET'' ''/ch1?r2h-token=abc''))) = ''/''
   \<and> \<not> host_rejected (cfg e0) (http_req (conn_req ''GET'' ''/ch1?r2h-token=abc''))
   \<and> token_matches (env_route e0) ''abc'' ''/ch1?r2h-token=abc''
   \<and> connection_route_and_start e0 zs68 (conn_req ''GET'' ''/ch1?r2h-token=abc'')
       = connection_route_and_start (e0\<lparr>cfg := (cfg e0)\<lparr>r2h_token := None\<rparr>\<rparr>) zs68
           (conn_req ''GET'' ''/ch1?r2h-token=abc'')"
proof -
  have tok: "r2h_token (cfg e0) = Some ''abc''" and ne: "''abc'' \<noteq> []"
    by (simp_all add: e0_def)
  have u: "req_url (http_req (conn_req m v)) = v" for m v
    by (simp add: conn_req_def)
  have slash: "take 1 (req_url (http_req (conn_req m ''/ch1?other=1''))) = ''/''"
    "take 1 (req_url (http_req (conn_req m ''/ch1?r2h-token=abc''))) = ''/''" for m
    by (simp_all add: u)
  have host: "\<not> host_rejected (cfg e0) (http_req (conn_req m v))" for m v
    by (simp add: host_rejected_def e0_def cfg0_def)
  have bad: "\<not> token_matches (env_route e0) ''abc'' ''/ch1?other=1''"
    by (simp add: token_matches_def e0_def rx0_def)
  have good: "token_matches (env_route e0) ''abc'' ''/ch1?r2h-token=abc''"
    by (simp add: token_matches_def e0_def rx0_def)
  have t: "trace (conn_req ''GET'' ''/ch1?other=1'') = []"
    by (simp add: conn_req_def conn0_def)
  from C5_token_check[OF tok ne slash(1) host, of "''GET''" zs68]
    C5_token_check[OF tok ne slash(2) host, of "''GET''" zs68]
    tok ne slash[of "''GET''"] host bad good
  show ?thesis
    by (simp add: u t)
qed

end
